theory Spec2Isabelle
  imports Main
begin

section \<open>AWS runner backend of dstack: \<^verbatim>\<open>cli/dstack/backend/aws/runners.py\<close>\<close>

text \<open>
  A shallow embedding of the runner lifecycle code. Python objects become records,
  \<^verbatim>\<open>Optional\<close> attributes become \<open>option\<close> values, exceptions become the left summand
  of a sum type, and calls to the cloud provider and to the object store become calls to
  an environment that answers as a function of the calls made so far.
\<close>

subsection \<open>Data model (\<^verbatim>\<open>dstack.core\<close>)\<close>

text \<open>
  Modelled from the spec: the enumeration \<^verbatim>\<open>JobStatus\<close> of \<^verbatim>\<open>dstack.core.job\<close> and its
  methods \<^verbatim>\<open>is_finished\<close> and \<^verbatim>\<open>is_unfinished\<close>. The statuses \<^verbatim>\<open>SUBMITTED\<close>,
  \<^verbatim>\<open>DOWNLOADING\<close>, \<^verbatim>\<open>RUNNING\<close>, \<^verbatim>\<open>UPLOADING\<close> and \<^verbatim>\<open>STOPPING\<close> are unfinished;
  \<^verbatim>\<open>STOPPED\<close>, \<^verbatim>\<open>FAILED\<close> and \<^verbatim>\<open>ABORTED\<close> are finished.
\<close>

datatype JobStatus =
  SUBMITTED | DOWNLOADING | RUNNING | UPLOADING | STOPPING | STOPPED | FAILED | ABORTED

fun is_finished :: "JobStatus \<Rightarrow> bool" where
  "is_finished STOPPED = True"
| "is_finished FAILED = True"
| "is_finished ABORTED = True"
| "is_finished _ = False"

definition is_unfinished :: "JobStatus \<Rightarrow> bool" where
  "is_unfinished s = (\<not> is_finished s)"

text \<open>
  Modelled from the spec: the enumeration \<^verbatim>\<open>RequestStatus\<close> of \<^verbatim>\<open>dstack.core.request\<close>
  (the constructors carry a prefix, \<^verbatim>\<open>RUNNING\<close> being a job status too).
\<close>

datatype RequestStatus = R_PENDING | R_RUNNING | R_NO_CAPACITY | R_TERMINATED

text \<open>
  Modelled from the spec: the value classes of \<^verbatim>\<open>dstack.core\<close> that the file constructs
  and reads (\<^verbatim>\<open>Gpu\<close>, \<^verbatim>\<open>Resources\<close>, \<^verbatim>\<open>InstanceType\<close>, \<^verbatim>\<open>Requirements\<close> with its GPU part,
  \<^verbatim>\<open>Job\<close>, the job head, \<^verbatim>\<open>Runner\<close>, \<^verbatim>\<open>RequestHead\<close>), with the attributes this file uses.
  An attribute the code treats as possibly \<^verbatim>\<open>None\<close> is an \<open>option\<close>.
\<close>

record Gpu =
  gpu_name :: string
  gpu_memory_mib :: int

record Resources =
  cpus :: int
  memory_mib :: int
  gpus :: "Gpu list option"
  interruptible :: "bool option"
  local :: "bool option"

record InstanceType =
  instance_name :: string
  it_resources :: Resources

record GpusRequirements =
  gr_count :: "int option"
  gr_name :: "string option"
  gr_memory_mib :: "int option"

record Requirements =
  req_cpus :: "int option"
  req_memory_mib :: "int option"
  req_gpus :: "GpusRequirements option"
  req_interruptible :: "bool option"
  req_local :: "bool option"

record Job =
  job_id :: string
  job_repo_address :: string
  job_status :: JobStatus
  job_requirements :: "Requirements option"
  job_runner_id :: "string option"
  job_request_id :: "string option"
  job_local_repo_user_name :: "string option"
  job_local_repo_user_email :: "string option"

record JobHead =
  jh_job_id :: string
  jh_status :: JobStatus

record Runner =
  runner_id :: string
  request_id :: "string option"
  resources :: Resources
  job :: Job

record RequestHead =
  rh_job_id :: string
  rh_status :: RequestStatus
  rh_message :: "string option"

subsection \<open>Exceptions and Python truthiness\<close>

text \<open>
  The exceptions the file raises, catches or lets through. \<open>ClientError\<close> is the
  provider's error: it has a \<^verbatim>\<open>response\<close> attribute whose \<^verbatim>\<open>"Error"\<close> entry holds an
  optional \<^verbatim>\<open>Code\<close> and an optional \<^verbatim>\<open>Message\<close>. \<open>Exception\<close> is the plain Python
  exception with its argument tuple. \<open>SystemExit\<close> is what \<^verbatim>\<open>sys.exit\<close> raises; it is
  not a subclass of \<^verbatim>\<open>Exception\<close>.
\<close>

datatype exn =
    ClientError (err_code: "string option") (err_message: "string option")
  | Exception "exn_arg list"
  | KeyError string
  | TypeError
  | AttributeError
  | SystemExit string
and exn_arg = AStr string | AInt int | AExn exn

text \<open>
  The test \<^verbatim>\<open>hasattr(e, "response") and e.response.get("Error") and
  e.response["Error"].get("Code") == code\<close>.
\<close>

fun has_error_code :: "exn \<Rightarrow> string \<Rightarrow> bool" where
  "has_error_code (ClientError c m) code = (c = Some code)"
| "has_error_code _ code = False"

text \<open>\<^verbatim>\<open>e.response["Error"].get("Message")\<close>, read after \<open>has_error_code\<close> held.\<close>

fun error_message :: "exn \<Rightarrow> string option" where
  "error_message (ClientError c m) = m"
| "error_message _ = None"

text \<open>What an \<^verbatim>\<open>except Exception\<close> clause catches.\<close>

fun is_Exception :: "exn \<Rightarrow> bool" where
  "is_Exception (SystemExit m) = False"
| "is_Exception _ = True"

text \<open>Truthiness of an optional string and of an optional flag.\<close>

fun truthy_str :: "string option \<Rightarrow> bool" where
  "truthy_str None = False"
| "truthy_str (Some s) = (s \<noteq> [])"

fun truthy_bool :: "bool option \<Rightarrow> bool" where
  "truthy_bool None = False"
| "truthy_bool (Some b) = b"

text \<open>Sequencing of computations that may raise.\<close>

fun bindE :: "exn + 'a \<Rightarrow> ('a \<Rightarrow> exn + 'b) \<Rightarrow> exn + 'b" where
  "bindE (Inl e) f = Inl e"
| "bindE (Inr x) f = f x"

subsection \<open>Runner documents: \<^verbatim>\<open>_serialize_runner\<close> and \<^verbatim>\<open>_unserialize_runner\<close>\<close>

text \<open>
  The dictionary that is dumped to and loaded from YAML: a tree of scalars, lists and
  dictionaries (association lists, first entry of a key wins, as \<open>map_of\<close> reads them).
\<close>

datatype yaml =
    YNull | YBool bool | YInt int | YStr string
  | YList "yaml list" | YDict "(string \<times> yaml) list"

definition opt_str :: "string option \<Rightarrow> yaml" where
  "opt_str s = (case s of None \<Rightarrow> YNull | Some v \<Rightarrow> YStr v)"

definition serialize_gpu :: "Gpu \<Rightarrow> yaml" where
  "serialize_gpu gpu =
     YDict [(''name'', YStr (gpu_name gpu)), (''memory_mib'', YInt (gpu_memory_mib gpu))]"

text \<open>\<^verbatim>\<open>resources.gpus or []\<close>.\<close>

definition gpus_or_empty :: "Resources \<Rightarrow> Gpu list" where
  "gpus_or_empty r = (case gpus r of None \<Rightarrow> [] | Some gs \<Rightarrow> gs)"

text \<open>
  \<^verbatim>\<open>_serialize_runner\<close>. \<^verbatim>\<open>Job.serialize\<close> is not part of this file and is a parameter.
\<close>

definition serialize_runner :: "(Job \<Rightarrow> yaml) \<Rightarrow> Runner \<Rightarrow> yaml" where
  "serialize_runner job_serialize runner =
     (let res = YDict
        [(''cpus'', YInt (cpus (resources runner))),
         (''memory_mib'', YInt (memory_mib (resources runner))),
         (''gpus'', YList (map serialize_gpu (gpus_or_empty (resources runner)))),
         (''interruptible'', YBool (interruptible (resources runner) = Some True)),
         (''local'', YBool (local (resources runner) = Some True))]
      in YDict
        [(''runner_id'', YStr (runner_id runner)),
         (''request_id'', opt_str (request_id runner)),
         (''resources'', res),
         (''job'', job_serialize (job runner))])"

text \<open>
  Reading a document. \<^verbatim>\<open>d[k]\<close> raises \<^verbatim>\<open>KeyError\<close> on a missing key and \<^verbatim>\<open>TypeError\<close>
  when \<^verbatim>\<open>d\<close> is no dictionary; \<^verbatim>\<open>d.get(k)\<close> gives \<^verbatim>\<open>None\<close> on a missing key. The
  records are typed, so a scalar of another type than the attribute's is rejected with
  \<open>TypeError\<close> where Python would store it as it is.
\<close>

fun subscript :: "yaml \<Rightarrow> string \<Rightarrow> exn + yaml" where
  "subscript (YDict kvs) k = (case map_of kvs k of None \<Rightarrow> Inl (KeyError k) | Some v \<Rightarrow> Inr v)"
| "subscript _ k = Inl TypeError"

fun get_key :: "yaml \<Rightarrow> string \<Rightarrow> exn + yaml" where
  "get_key (YDict kvs) k = (case map_of kvs k of None \<Rightarrow> Inr YNull | Some v \<Rightarrow> Inr v)"
| "get_key _ k = Inl AttributeError"

fun as_str :: "yaml \<Rightarrow> exn + string" where
  "as_str (YStr s) = Inr s"
| "as_str _ = Inl TypeError"

fun as_opt_str :: "yaml \<Rightarrow> exn + string option" where
  "as_opt_str (YStr s) = Inr (Some s)"
| "as_opt_str YNull = Inr None"
| "as_opt_str _ = Inl TypeError"

fun as_int :: "yaml \<Rightarrow> exn + int" where
  "as_int (YInt n) = Inr n"
| "as_int _ = Inl TypeError"

text \<open>
  What a \<^verbatim>\<open>for\<close> clause iterates over: the entries of a list, the keys of a dictionary,
  the characters of a string; a scalar of another kind is not iterable.
\<close>

fun iterate :: "yaml \<Rightarrow> exn + yaml list" where
  "iterate (YList ys) = Inr ys"
| "iterate (YDict kvs) = Inr (map YStr (remdups (map fst kvs)))"
| "iterate (YStr s) = Inr (map (\<lambda>c. YStr [c]) s)"
| "iterate _ = Inl TypeError"

text \<open>\<^verbatim>\<open>v is True\<close>.\<close>

definition is_True :: "yaml \<Rightarrow> bool" where
  "is_True v = (v = YBool True)"

definition unserialize_gpu :: "yaml \<Rightarrow> exn + Gpu" where
  "unserialize_gpu g =
     bindE (bindE (subscript g ''name'') as_str) (\<lambda>n.
     bindE (bindE (subscript g ''memory_mib'') as_int) (\<lambda>m.
     Inr \<lparr>gpu_name = n, gpu_memory_mib = m\<rparr>))"

text \<open>The list comprehension over the GPU entries: the first failing entry raises.\<close>

fun mapE :: "('a \<Rightarrow> exn + 'b) \<Rightarrow> 'a list \<Rightarrow> exn + 'b list" where
  "mapE f [] = Inr []"
| "mapE f (x # xs) = bindE (f x) (\<lambda>y. bindE (mapE f xs) (\<lambda>ys. Inr (y # ys)))"

text \<open>
  \<^verbatim>\<open>_unserialize_runner\<close>, the arguments of the constructors evaluated from left to right.
  \<^verbatim>\<open>Job.unserialize\<close> is not part of this file and is a parameter.
\<close>

definition unserialize_runner :: "(yaml \<Rightarrow> exn + Job) \<Rightarrow> yaml \<Rightarrow> exn + Runner" where
  "unserialize_runner job_unserialize data =
     bindE (bindE (subscript data ''runner_id'') as_str) (\<lambda>rid.
     bindE (bindE (get_key data ''request_id'') as_opt_str) (\<lambda>req.
     bindE (subscript data ''resources'') (\<lambda>res.
     bindE (bindE (subscript res ''cpus'') as_int) (\<lambda>c.
     bindE (bindE (subscript res ''memory_mib'') as_int) (\<lambda>m.
     bindE (bindE (bindE (subscript res ''gpus'') iterate) (mapE unserialize_gpu)) (\<lambda>gs.
     bindE (subscript res ''interruptible'') (\<lambda>i.
     bindE (get_key res ''local'') (\<lambda>l.
     bindE (bindE (subscript data ''job'') job_unserialize) (\<lambda>j.
     Inr \<lparr>runner_id = rid, request_id = req,
          resources = \<lparr>cpus = c, memory_mib = m, gpus = Some gs,
                       interruptible = Some (is_True i), local = Some (is_True l)\<rparr>,
          job = j\<rparr>)))))))))"


subsection \<open>Matching resources against requirements: \<^verbatim>\<open>_matches\<close>\<close>

text \<open>\<^verbatim>\<open>wanted and wanted > have\<close> for an optional integer requirement.\<close>

fun exceeds :: "int option \<Rightarrow> int \<Rightarrow> bool" where
  "exceeds None have = False"
| "exceeds (Some n) have = (n \<noteq> 0 \<and> n > have)"

text \<open>\<^verbatim>\<open>requirements.gpus.count or 1\<close>.\<close>

fun count_or_1 :: "int option \<Rightarrow> int" where
  "count_or_1 None = 1"
| "count_or_1 (Some n) = (if n \<noteq> 0 then n else 1)"

text \<open>The two filters over the GPU list.\<close>

definition gpus_named :: "string option \<Rightarrow> Gpu list \<Rightarrow> Gpu list" where
  "gpus_named n gs = filter (\<lambda>gpu. Some (gpu_name gpu) = n) gs"

definition gpus_with_memory :: "int \<Rightarrow> Gpu list \<Rightarrow> Gpu list" where
  "gpus_with_memory m gs = filter (\<lambda>gpu. gpu_memory_mib gpu \<ge> m) gs"

text \<open>
  The block under \<^verbatim>\<open>if requirements.gpus:\<close>, the test of the interruptible flag being
  its last statement.
\<close>

definition matches_gpus :: "Resources \<Rightarrow> Requirements \<Rightarrow> GpusRequirements \<Rightarrow> bool" where
  "matches_gpus res r g =
     (let gpu_count = count_or_1 (gr_count g) in
      if gpu_count > int (length (gpus_or_empty res)) then False
      else if truthy_str (gr_name g)
              \<and> gpu_count > int (length (gpus_named (gr_name g) (gpus_or_empty res)))
        then False
      else if (case gr_memory_mib g of None \<Rightarrow> False
               | Some m \<Rightarrow> m \<noteq> 0
                   \<and> gpu_count > int (length (gpus_with_memory m (gpus_or_empty res))))
        then False
      else if truthy_bool (req_interruptible r) \<and> \<not> truthy_bool (interruptible res)
        then False
      else True)"

definition matches :: "Resources \<Rightarrow> Requirements option \<Rightarrow> bool" where
  "matches res requirements =
     (case requirements of
        None \<Rightarrow> True
      | Some r \<Rightarrow>
          if exceeds (req_cpus r) (cpus res) then False
          else if exceeds (req_memory_mib r) (memory_mib res) then False
          else (case req_gpus r of
                  None \<Rightarrow> True
                | Some g \<Rightarrow> matches_gpus res r g))"

subsection \<open>The catalogue of instance types: \<^verbatim>\<open>_get_instance_types\<close>\<close>

text \<open>
  What the provider's \<^verbatim>\<open>describe_instance_types\<close> answers, as far as the file reads it:
  per instance type its name, the default number of virtual CPUs, the memory size, the
  GPU devices (absent when \<^verbatim>\<open>GpuInfo\<close> or its \<^verbatim>\<open>Gpus\<close> is missing) and the supported
  usage classes; per page the instance types and the optional continuation token.
\<close>

record GpuDeviceInfo =
  gd_Name :: string
  gd_Count :: int
  gd_SizeInMiB :: int

record InstanceTypeInfo =
  ti_InstanceType :: string
  ti_DefaultVCpus :: int
  ti_SizeInMiB :: int
  ti_Gpus :: "GpuDeviceInfo list option"
  ti_SupportedUsageClasses :: "string list"

record InstanceTypesPage =
  pg_InstanceTypes :: "InstanceTypeInfo list"
  pg_NextToken :: "string option"

text \<open>
  The body of the \<^verbatim>\<open>for\<close> loop: a device with count \<open>n\<close> becomes \<open>n\<close> entries
  (\<^verbatim>\<open>[Gpu(...)] * n\<close>, empty for \<open>n \<le> 0\<close>), the lists of all devices are concatenated.
\<close>

definition gpus_of_device :: "GpuDeviceInfo \<Rightarrow> Gpu list" where
  "gpus_of_device d =
     replicate (nat (gd_Count d)) \<lparr>gpu_name = gd_Name d, gpu_memory_mib = gd_SizeInMiB d\<rparr>"

definition instance_type_of :: "InstanceTypeInfo \<Rightarrow> InstanceType" where
  "instance_type_of t =
     (let gs = (case ti_Gpus t of None \<Rightarrow> [] | Some ds \<Rightarrow> map gpus_of_device ds) in
      \<lparr>instance_name = ti_InstanceType t,
       it_resources =
         \<lparr>cpus = ti_DefaultVCpus t,
          memory_mib = ti_SizeInMiB t,
          gpus = Some (concat gs),
          interruptible = Some (''spot'' \<in> set (ti_SupportedUsageClasses t)),
          local = Some False\<rparr>\<rparr>)"

text \<open>The comparator \<^verbatim>\<open>compare\<close>: total GPU memory, then CPUs, then memory.\<close>

definition gpu_total_memory_mib :: "InstanceType \<Rightarrow> int" where
  "gpu_total_memory_mib i = sum_list (map gpu_memory_mib (gpus_or_empty (it_resources i)))"

definition compare :: "InstanceType \<Rightarrow> InstanceType \<Rightarrow> int" where
  "compare i1 i2 =
     (if gpu_total_memory_mib i1 < gpu_total_memory_mib i2 then - 1
      else if gpu_total_memory_mib i1 > gpu_total_memory_mib i2 then 1
      else if cpus (it_resources i1) < cpus (it_resources i2) then - 1
      else if cpus (it_resources i1) > cpus (it_resources i2) then 1
      else if memory_mib (it_resources i1) < memory_mib (it_resources i2) then - 1
      else if memory_mib (it_resources i1) > memory_mib (it_resources i2) then 1
      else 0)"

text \<open>
  \<^verbatim>\<open>sorted(instance_types, key=cmp_to_key(compare))\<close>: a stable sort that asks only
  whether one key is less than another, that is whether \<open>compare\<close> is negative. An
  entry is inserted in front of the first entry that is not less than it.
\<close>

fun insert_cmp :: "InstanceType \<Rightarrow> InstanceType list \<Rightarrow> InstanceType list" where
  "insert_cmp x [] = [x]"
| "insert_cmp x (y # ys) = (if compare y x < 0 then y # insert_cmp x ys else x # y # ys)"

definition sorted_cmp :: "InstanceType list \<Rightarrow> InstanceType list" where
  "sorted_cmp xs = foldr insert_cmp xs []"

subsection \<open>The environment\<close>

text \<open>
  The calls that change the world outside the process, or let time pass, each recorded
  when it is made, whether it then raises or not.
\<close>

datatype event =
    UpdateJob Job
  | PutObject string yaml "(string \<times> string) list"
  | CreateLogGroup
  | RunInstance string InstanceType "string option" "string option" string
  | Sleep nat
  | DeleteObject string
  | CancelSpotInstanceRequests string
  | TerminateInstances string

text \<open>What the provider reports of a spot request and of an instance.\<close>

record SpotStatus =
  st_Code :: string
  st_Message :: "string option"

record Instance =
  in_InstanceId :: string
  in_StateName :: string

text \<open>
  The clients, the job store of \<^verbatim>\<open>dstack.backend.aws.jobs\<close>, the log group helper, the
  launch \<^verbatim>\<open>_run_instance\<close> and \<^verbatim>\<open>uuid4\<close>, as the lifecycle code sees them: every call
  answers as a function of the events so far and of its arguments. A call that changes
  the world answers with the exception it raises, if any; the launch answers with the
  request id or an exception; a query answers with its result or an exception.
  \<open>env_describe_instances\<close> lists the instances of each reservation for an instance
  id, \<open>env_describe_spot_instances\<close> for the id of a spot request.
\<close>

record env =
  env_uuid4 :: "event list \<Rightarrow> string"
  env_update_job :: "event list \<Rightarrow> Job \<Rightarrow> exn option"
  env_list_job_head :: "event list \<Rightarrow> string \<Rightarrow> string \<Rightarrow> exn + JobHead option"
  env_get_job :: "event list \<Rightarrow> string \<Rightarrow> string \<Rightarrow> exn + Job option"
  env_job_serialize :: "Job \<Rightarrow> yaml"
  env_job_unserialize :: "yaml \<Rightarrow> exn + Job"
  env_put_object :: "event list \<Rightarrow> string \<Rightarrow> yaml \<Rightarrow> (string \<times> string) list \<Rightarrow> exn option"
  env_get_object :: "event list \<Rightarrow> string \<Rightarrow> exn + yaml"
  env_delete_object :: "event list \<Rightarrow> string \<Rightarrow> exn option"
  env_create_log_group :: "event list \<Rightarrow> exn option"
  env_describe_instance_types :: "event list \<Rightarrow> string option \<Rightarrow> exn + InstanceTypesPage"
  env_run_instance ::
    "event list \<Rightarrow> string \<Rightarrow> InstanceType \<Rightarrow> string option \<Rightarrow> string option \<Rightarrow> string
       \<Rightarrow> exn + string"
  env_describe_spot_instance_requests :: "event list \<Rightarrow> string \<Rightarrow> exn + SpotStatus list"
  env_describe_instances :: "event list \<Rightarrow> string \<Rightarrow> exn + Instance list list"
  env_describe_spot_instances :: "event list \<Rightarrow> string \<Rightarrow> exn + Instance list list"
  env_cancel_spot_instance_requests :: "event list \<Rightarrow> string \<Rightarrow> exn option"
  env_terminate_instances :: "event list \<Rightarrow> string \<Rightarrow> exn option"

text \<open>A call that changes the world: the event is recorded, the answer is returned.\<close>

definition perform :: "event \<Rightarrow> exn option \<Rightarrow> event list \<Rightarrow> (exn + unit) \<times> event list" where
  "perform ev raised tr = ((case raised of None \<Rightarrow> Inr () | Some e \<Rightarrow> Inl e), tr @ [ev])"

definition update_job :: "env \<Rightarrow> event list \<Rightarrow> Job \<Rightarrow> (exn + unit) \<times> event list" where
  "update_job env tr j = perform (UpdateJob j) (env_update_job env tr j) tr"

text \<open>The pagination loop of \<^verbatim>\<open>_get_instance_types\<close>; it ends when a page has no token.\<close>

partial_function (option) drain_instance_types ::
  "env \<Rightarrow> event list \<Rightarrow> InstanceTypesPage option \<Rightarrow> InstanceType list
     \<Rightarrow> (exn + InstanceType list) option"
where
  "drain_instance_types env tr response instance_types =
     (if (case response of None \<Rightarrow> True | Some r \<Rightarrow> truthy_str (pg_NextToken r)) then
        (case env_describe_instance_types env tr
                (case response of None \<Rightarrow> None | Some r \<Rightarrow> pg_NextToken r) of
           Inl e \<Rightarrow> Some (Inl e)
         | Inr r' \<Rightarrow>
             drain_instance_types env tr (Some r')
               (instance_types @ map instance_type_of (pg_InstanceTypes r')))
      else Some (Inr instance_types))"

definition get_instance_types ::
  "env \<Rightarrow> event list \<Rightarrow> (exn + InstanceType list) option" where
  "get_instance_types env tr =
     (case drain_instance_types env tr None [] of
        None \<Rightarrow> None
      | Some (Inl e) \<Rightarrow> Some (Inl e)
      | Some (Inr instance_types) \<Rightarrow> Some (Inr (sorted_cmp instance_types)))"

text \<open>
  \<^verbatim>\<open>_get_instance_type\<close>: the first entry that matches, copied with the flag
  \<^verbatim>\<open>requirements and requirements.interruptible\<close>.
\<close>

definition requested_interruptible :: "Requirements option \<Rightarrow> bool option" where
  "requested_interruptible requirements =
     (case requirements of None \<Rightarrow> None | Some r \<Rightarrow> req_interruptible r)"

definition get_instance_type ::
  "env \<Rightarrow> event list \<Rightarrow> Requirements option \<Rightarrow> (exn + InstanceType option) option" where
  "get_instance_type env tr requirements =
     (case get_instance_types env tr of
        None \<Rightarrow> None
      | Some (Inl e) \<Rightarrow> Some (Inl e)
      | Some (Inr instance_types) \<Rightarrow>
          Some (Inr
            (case find (\<lambda>instance_type. matches (it_resources instance_type) requirements)
                    instance_types of
               None \<Rightarrow> None
             | Some instance_type \<Rightarrow>
                 Some \<lparr>instance_name = instance_name instance_type,
                       it_resources =
                         \<lparr>cpus = cpus (it_resources instance_type),
                          memory_mib = memory_mib (it_resources instance_type),
                          gpus = gpus (it_resources instance_type),
                          interruptible = requested_interruptible requirements,
                          local = Some False\<rparr>\<rparr>)))"

subsection \<open>The runner store\<close>

text \<open>The key \<^verbatim>\<open>f"runners/{runner_id}.yaml"\<close>; \<^verbatim>\<open>None\<close> is formatted as \<^verbatim>\<open>None\<close>.\<close>

definition runner_key :: "string option \<Rightarrow> string" where
  "runner_key rid = ''runners/'' @ (case rid of None \<Rightarrow> ''None'' | Some s \<Rightarrow> s) @ ''.yaml''"

definition runner_metadata :: "Runner \<Rightarrow> (string \<times> string) list" where
  "runner_metadata runner =
     (if job_status (job runner) = STOPPING then [(''status'', ''stopping'')] else [])"

definition put_runner :: "env \<Rightarrow> event list \<Rightarrow> Runner \<Rightarrow> (exn + unit) \<times> event list" where
  "put_runner env tr runner =
     (let key = runner_key (Some (runner_id runner));
          body = serialize_runner (env_job_serialize env) runner;
          metadata = runner_metadata runner
      in perform (PutObject key body metadata) (env_put_object env tr key body metadata) tr)"

definition create_runner :: "env \<Rightarrow> event list \<Rightarrow> Runner \<Rightarrow> (exn + unit) \<times> event list" where
  "create_runner env tr runner =
     (case put_runner env tr runner of
        (Inl e, tr1) \<Rightarrow> (Inl e, tr1)
      | (Inr u, tr1) \<Rightarrow> perform CreateLogGroup (env_create_log_group env tr1) tr1)"

definition update_runner :: "env \<Rightarrow> event list \<Rightarrow> Runner \<Rightarrow> (exn + unit) \<times> event list" where
  "update_runner env tr runner = put_runner env tr runner"

definition delete_runner :: "env \<Rightarrow> event list \<Rightarrow> Runner \<Rightarrow> (exn + unit) \<times> event list" where
  "delete_runner env tr runner =
     (let key = runner_key (Some (runner_id runner))
      in perform (DeleteObject key) (env_delete_object env tr key) tr)"

text \<open>\<^verbatim>\<open>_get_runner\<close>: a missing key gives \<^verbatim>\<open>None\<close>, any other exception is raised again.\<close>

definition get_runner_handler :: "exn \<Rightarrow> exn + Runner option" where
  "get_runner_handler e =
     (if is_Exception e \<and> has_error_code e ''NoSuchKey'' then Inr None else Inl e)"

definition get_runner :: "env \<Rightarrow> event list \<Rightarrow> string option \<Rightarrow> exn + Runner option" where
  "get_runner env tr rid =
     (case env_get_object env tr (runner_key rid) of
        Inl e \<Rightarrow> get_runner_handler e
      | Inr body \<Rightarrow>
          (case unserialize_runner (env_job_unserialize env) body of
             Inl e \<Rightarrow> get_runner_handler e
           | Inr runner \<Rightarrow> Inr (Some runner)))"

subsection \<open>Launching with retries: \<^verbatim>\<open>_run_instance_retry\<close>\<close>

definition CREATE_INSTANCE_RETRY_RATE_SECS :: nat where
  "CREATE_INSTANCE_RETRY_RATE_SECS = 3"

text \<open>
  One call of \<^verbatim>\<open>_run_instance\<close>, taken as one call to the environment, and
  \<^verbatim>\<open>time.sleep\<close>.
\<close>

definition run_instance ::
  "env \<Rightarrow> event list \<Rightarrow> string \<Rightarrow> InstanceType \<Rightarrow> string option \<Rightarrow> string option \<Rightarrow> string
     \<Rightarrow> (exn + string) \<times> event list" where
  "run_instance env tr rid it user_name user_email repo =
     (env_run_instance env tr rid it user_name user_email repo,
      tr @ [RunInstance rid it user_name user_email repo])"

definition sleep :: "nat \<Rightarrow> event list \<Rightarrow> event list" where
  "sleep secs tr = tr @ [Sleep secs]"

function run_instance_retry ::
  "env \<Rightarrow> event list \<Rightarrow> string \<Rightarrow> InstanceType \<Rightarrow> string option \<Rightarrow> string option \<Rightarrow> string
     \<Rightarrow> int \<Rightarrow> (exn + string) \<times> event list" where
  "run_instance_retry env tr rid it user_name user_email repo attempts =
     (case run_instance env tr rid it user_name user_email repo of
        (Inr request, tr1) \<Rightarrow> (Inr request, tr1)
      | (Inl e, tr1) \<Rightarrow>
          if is_Exception e then
            if has_error_code e ''InvalidParameterValue'' then
              if attempts > 0 then
                run_instance_retry env (sleep CREATE_INSTANCE_RETRY_RATE_SECS tr1)
                  rid it user_name user_email repo (attempts - 1)
              else (Inl (Exception [AStr ''Failed to retry'', AExn e]), tr1)
            else (Inl e, tr1)
          else (Inl e, tr1))"
  by pat_completeness auto
termination
  by (relation "measure (\<lambda>(env, tr, rid, it, user_name, user_email, repo, attempts).
        nat attempts)") auto

declare run_instance_retry.simps [simp del]

subsection \<open>Translating the provider's status: \<^verbatim>\<open>get_request_head\<close>\<close>

text \<open>\<^verbatim>\<open>job.requirements and job.requirements.interruptible\<close>, as a condition.\<close>

definition job_interruptible :: "Job \<Rightarrow> bool" where
  "job_interruptible j = truthy_bool (requested_interruptible (job_requirements j))"

text \<open>
  The request id to poll: the job's, else the given runner's, else that of the runner
  loaded from the store when no runner was given.
\<close>

definition resolve_request_id ::
  "env \<Rightarrow> event list \<Rightarrow> Job \<Rightarrow> Runner option \<Rightarrow> exn + string option" where
  "resolve_request_id env tr j runner =
     (if truthy_str (job_request_id j) then Inr (job_request_id j)
      else (case runner of
              Some r \<Rightarrow> if truthy_str (request_id r) then Inr (request_id r) else Inr None
            | None \<Rightarrow>
                bindE (get_runner env tr (job_runner_id j)) (\<lambda>loaded.
                  case loaded of None \<Rightarrow> Inr None | Some r \<Rightarrow> Inr (request_id r))))"

text \<open>The four lists of spot status codes and the state names of an instance.\<close>

definition spot_running_codes :: "string list" where
  "spot_running_codes = [''fulfilled'', ''request-canceled-and-instance-running'']"

definition spot_pending_codes :: "string list" where
  "spot_pending_codes = [''not-scheduled-yet'', ''pending-evaluation'', ''pending-fulfillment'']"

definition spot_no_capacity_codes :: "string list" where
  "spot_no_capacity_codes =
     [''capacity-not-available'', ''instance-stopped-no-capacity'',
      ''instance-terminated-by-price'', ''instance-stopped-by-price'',
      ''instance-terminated-no-capacity'', ''limit-exceeded'', ''price-too-low'']"

definition spot_terminated_codes :: "string list" where
  "spot_terminated_codes =
     [''instance-terminated-by-user'', ''instance-stopped-by-user'',
      ''canceled-before-fulfillment'', ''instance-terminated-by-schedule'',
      ''instance-terminated-by-service'', ''spot-instance-terminated-by-user'',
      ''marked-for-stop'', ''marked-for-termination'']"

definition spot_request_status :: "string \<Rightarrow> exn + RequestStatus" where
  "spot_request_status code =
     (if code \<in> set spot_running_codes then Inr R_RUNNING
      else if code \<in> set spot_pending_codes then Inr R_PENDING
      else if code \<in> set spot_no_capacity_codes then Inr R_NO_CAPACITY
      else if code \<in> set spot_terminated_codes then Inr R_TERMINATED
      else Inl (Exception
             [AStr (''Unsupported EC2 spot instance request status code: '' @ code)]))"

definition instance_request_status :: "string \<Rightarrow> exn + RequestStatus" where
  "instance_request_status state_name =
     (if state_name \<in> set [''running''] then Inr R_RUNNING
      else if state_name \<in> set [''pending''] then Inr R_PENDING
      else if state_name \<in> set [''shutting-down'', ''terminated'', ''stopping'', ''stopped'']
        then Inr R_TERMINATED
      else Inl (Exception [AStr (''Unsupported EC2 instance state name: '' @ state_name)]))"

text \<open>
  The \<^verbatim>\<open>except\<close> clause of either branch: the provider's not-found error gives
  \<^verbatim>\<open>TERMINATED\<close> with the provider's message, any other exception is raised again.
\<close>

definition not_found_handler :: "string \<Rightarrow> string \<Rightarrow> exn \<Rightarrow> exn + RequestHead" where
  "not_found_handler code jid e =
     (if is_Exception e \<and> has_error_code e code
      then Inr \<lparr>rh_job_id = jid, rh_status = R_TERMINATED, rh_message = error_message e\<rparr>
      else Inl e)"

text \<open>
  The \<^verbatim>\<open>try\<close> block for an interruptible request; the exception for a code outside the
  lists is raised inside the block and passes through its \<^verbatim>\<open>except\<close> clause.
\<close>

definition spot_request_head :: "env \<Rightarrow> event list \<Rightarrow> Job \<Rightarrow> string \<Rightarrow> exn + RequestHead" where
  "spot_request_head env tr j rid =
     (case env_describe_spot_instance_requests env tr rid of
        Inl e \<Rightarrow> not_found_handler ''InvalidSpotInstanceRequestID.NotFound'' (job_id j) e
      | Inr [] \<Rightarrow> Inr \<lparr>rh_job_id = job_id j, rh_status = R_TERMINATED, rh_message = None\<rparr>
      | Inr (status # others) \<Rightarrow>
          (case spot_request_status (st_Code status) of
             Inl e \<Rightarrow> not_found_handler ''InvalidSpotInstanceRequestID.NotFound'' (job_id j) e
           | Inr request_status \<Rightarrow>
               Inr \<lparr>rh_job_id = job_id j, rh_status = request_status,
                    rh_message = st_Message status\<rparr>))"

text \<open>
  The first instance of the first reservation, when the answer has a reservation and
  that reservation has an instance.
\<close>

fun first_instance :: "Instance list list \<Rightarrow> Instance option" where
  "first_instance [] = None"
| "first_instance ([] # others) = None"
| "first_instance ((i # rest) # others) = Some i"

definition instance_request_head ::
  "env \<Rightarrow> event list \<Rightarrow> Job \<Rightarrow> string \<Rightarrow> exn + RequestHead" where
  "instance_request_head env tr j rid =
     (case env_describe_instances env tr rid of
        Inl e \<Rightarrow> not_found_handler ''InvalidInstanceID.NotFound'' (job_id j) e
      | Inr reservations \<Rightarrow>
          (case first_instance reservations of
             None \<Rightarrow> Inr \<lparr>rh_job_id = job_id j, rh_status = R_TERMINATED, rh_message = None\<rparr>
           | Some i \<Rightarrow>
               (case instance_request_status (in_StateName i) of
                  Inl e \<Rightarrow> not_found_handler ''InvalidInstanceID.NotFound'' (job_id j) e
                | Inr request_status \<Rightarrow>
                    Inr \<lparr>rh_job_id = job_id j, rh_status = request_status,
                         rh_message = None\<rparr>)))"

text \<open>The answer when there is no request id to poll.\<close>

definition unspecified_request_head :: "Job \<Rightarrow> RequestHead" where
  "unspecified_request_head j =
     \<lparr>rh_job_id = job_id j, rh_status = R_TERMINATED,
      rh_message = Some (if job_interruptible j
                         then ''The spot instance request ID is not specified''
                         else ''The instance ID is not specified'')\<rparr>"

definition get_request_head ::
  "env \<Rightarrow> event list \<Rightarrow> Job \<Rightarrow> Runner option \<Rightarrow> exn + RequestHead" where
  "get_request_head env tr j runner =
     bindE (resolve_request_id env tr j runner) (\<lambda>resolved.
       case resolved of
         None \<Rightarrow> Inr (unspecified_request_head j)
       | Some rid \<Rightarrow>
           if rid \<noteq> [] then
             if job_interruptible j then spot_request_head env tr j rid
             else instance_request_head env tr j rid
           else Inr (unspecified_request_head j))"

subsection \<open>The lifecycle: \<^verbatim>\<open>run_job\<close>\<close>

text \<open>
  The \<^verbatim>\<open>except Exception\<close> clause of \<^verbatim>\<open>run_job\<close>, entered with the job and the runner as
  they are when the exception is raised.
\<close>

definition run_job_failed ::
  "env \<Rightarrow> event list \<Rightarrow> Job \<Rightarrow> Runner option \<Rightarrow> exn \<Rightarrow> (exn + unit) \<times> event list" where
  "run_job_failed env tr j runner e =
     (if is_Exception e then
        (let j' = j\<lparr>job_status := FAILED,
                    job_request_id := (case runner of None \<Rightarrow> None | Some r \<Rightarrow> request_id r)\<rparr>
         in case update_job env tr j' of
              (Inl e', tr') \<Rightarrow> (Inl e', tr')
            | (Inr u, tr') \<Rightarrow> (Inl e, tr'))
      else (Inl e, tr))"

text \<open>
  The \<^verbatim>\<open>try\<close> block of \<^verbatim>\<open>run_job\<close>: its outcome, the events, and the local variables
  \<^verbatim>\<open>job\<close> and \<^verbatim>\<open>runner\<close> as they are when the block is left. The result is \<open>None\<close>
  when the catalogue's pagination never ends. \<^verbatim>\<open>runner.job\<close> is the job itself.
\<close>

definition run_job_try ::
  "env \<Rightarrow> event list \<Rightarrow> Job \<Rightarrow> ((exn + unit) \<times> event list \<times> Job \<times> Runner option) option" where
  "run_job_try env tr j =
     (let rid = env_uuid4 env tr;
          j1 = j\<lparr>job_runner_id := Some rid\<rparr>
      in case update_job env tr j1 of
           (Inl e, tr1) \<Rightarrow> Some (Inl e, tr1, j1, None)
         | (Inr u, tr1) \<Rightarrow>
       (case get_instance_type env tr1 (job_requirements j1) of
          None \<Rightarrow> None
        | Some (Inl e) \<Rightarrow> Some (Inl e, tr1, j1, None)
        | Some (Inr None) \<Rightarrow>
            (let j2 = j1\<lparr>job_status := FAILED\<rparr>
             in case update_job env tr1 j2 of
                  (Inl e, tr2) \<Rightarrow> Some (Inl e, tr2, j2, None)
                | (Inr u, tr2) \<Rightarrow>
                    Some (Inl (SystemExit ''No instance type matching requirements.''),
                          tr2, j2, None))
        | Some (Inr (Some instance_type)) \<Rightarrow>
            (let runner = \<lparr>runner_id = rid, request_id = None,
                           resources = it_resources instance_type, job = j1\<rparr>
             in case create_runner env tr1 runner of
                  (Inl e, tr2) \<Rightarrow> Some (Inl e, tr2, j1, Some runner)
                | (Inr u, tr2) \<Rightarrow>
              (case run_instance_retry env tr2 rid instance_type
                      (job_local_repo_user_name j1) (job_local_repo_user_email j1)
                      (job_repo_address j1) 3 of
                 (Inl e, tr3) \<Rightarrow> Some (Inl e, tr3, j1, Some runner)
               | (Inr request, tr3) \<Rightarrow>
                   (let runner' = runner\<lparr>request_id := Some request\<rparr>
                    in case update_runner env tr3 runner' of
                         (Inl e, tr4) \<Rightarrow> Some (Inl e, tr4, j1, Some runner')
                       | (Inr u, tr4) \<Rightarrow> Some (Inr (), tr4, j1, Some runner'))))))"

text \<open>
  \<^verbatim>\<open>run_job\<close>: the check of the status, then the \<^verbatim>\<open>try\<close> block with its
  \<^verbatim>\<open>except Exception\<close> clause.
\<close>

definition run_job ::
  "env \<Rightarrow> event list \<Rightarrow> Job \<Rightarrow> ((exn + unit) \<times> event list) option" where
  "run_job env tr j =
     (if job_status j \<noteq> SUBMITTED then
        Some (Inl (Exception
          [AStr ''Can't create a request for a job which status is not SUBMITTED'']), tr)
      else
        (case run_job_try env tr j of
           None \<Rightarrow> None
         | Some (Inr u, tr', j', runner) \<Rightarrow> Some (Inr (), tr')
         | Some (Inl e, tr', j', runner) \<Rightarrow> Some (run_job_failed env tr' j' runner e)))"

subsection \<open>The lifecycle: \<^verbatim>\<open>stop_job\<close>\<close>

definition cancel_spot_request ::
  "env \<Rightarrow> event list \<Rightarrow> string \<Rightarrow> (exn + unit) \<times> event list" where
  "cancel_spot_request env tr rid =
     (case perform (CancelSpotInstanceRequests rid)
             (env_cancel_spot_instance_requests env tr rid) tr of
        (Inl e, tr1) \<Rightarrow> (Inl e, tr1)
      | (Inr u, tr1) \<Rightarrow>
          (case env_describe_spot_instances env tr1 rid of
             Inl e \<Rightarrow> (Inl e, tr1)
           | Inr reservations \<Rightarrow>
               (case first_instance reservations of
                  None \<Rightarrow> (Inr (), tr1)
                | Some i \<Rightarrow>
                    perform (TerminateInstances (in_InstanceId i))
                      (env_terminate_instances env tr1 (in_InstanceId i)) tr1)))"

definition terminate_instance ::
  "env \<Rightarrow> event list \<Rightarrow> string \<Rightarrow> (exn + unit) \<times> event list" where
  "terminate_instance env tr rid =
     (case perform (TerminateInstances rid) (env_terminate_instances env tr rid) tr of
        (Inl e, tr1) \<Rightarrow>
          if is_Exception e \<and> has_error_code e ''InvalidInstanceID.NotFound''
          then (Inr (), tr1) else (Inl e, tr1)
      | (Inr u, tr1) \<Rightarrow> (Inr (), tr1))"

definition stop_runner :: "env \<Rightarrow> event list \<Rightarrow> Runner \<Rightarrow> (exn + unit) \<times> event list" where
  "stop_runner env tr runner =
     (case (case request_id runner of
              None \<Rightarrow> (Inr (), tr)
            | Some rid \<Rightarrow>
                if rid \<noteq> [] then
                  if truthy_bool (local (resources runner)) then (Inr (), tr)
                  else if truthy_bool (interruptible (resources runner))
                    then cancel_spot_request env tr rid
                  else terminate_instance env tr rid
                else (Inr (), tr)) of
        (Inl e, tr1) \<Rightarrow> (Inl e, tr1)
      | (Inr u, tr1) \<Rightarrow> delete_runner env tr1 runner)"

text \<open>The condition that something is still unfinished.\<close>

definition anything_unfinished ::
  "JobHead option \<Rightarrow> Job option \<Rightarrow> Runner option \<Rightarrow> RequestStatus \<Rightarrow> bool" where
  "anything_unfinished job_head j runner request_status =
     ((case job_head of None \<Rightarrow> False | Some h \<Rightarrow> is_unfinished (jh_status h))
      \<or> (case j of None \<Rightarrow> False | Some jb \<Rightarrow> is_unfinished (job_status jb))
      \<or> (case runner of None \<Rightarrow> False | Some r \<Rightarrow> is_unfinished (job_status (job r)))
      \<or> request_status \<noteq> R_TERMINATED)"

text \<open>The choice of \<^verbatim>\<open>new_status\<close>; \<open>None\<close> leaves the status as it is.\<close>

definition choose_new_status ::
  "bool \<Rightarrow> JobHead option \<Rightarrow> Job option \<Rightarrow> Runner option \<Rightarrow> RequestStatus
     \<Rightarrow> JobStatus option" where
  "choose_new_status abort job_head j runner request_status =
     (if abort then Some ABORTED
      else if job_head = None
              \<or> (case job_head of None \<Rightarrow> False
                  | Some h \<Rightarrow> jh_status h \<in> set [SUBMITTED, DOWNLOADING])
              \<or> j = None
              \<or> (case j of None \<Rightarrow> False
                  | Some jb \<Rightarrow> job_status jb \<in> set [SUBMITTED, DOWNLOADING])
              \<or> request_status = R_TERMINATED
              \<or> runner = None
        then Some STOPPED
      else if (case job_head of None \<Rightarrow> False | Some h \<Rightarrow> jh_status h \<noteq> UPLOADING)
              \<or> (case j of None \<Rightarrow> False | Some jb \<Rightarrow> job_status jb \<noteq> UPLOADING)
        then Some STOPPING
      else None)"

text \<open>The runner's side: tear the runner down, or record the new status in it.\<close>

definition stop_job_runner ::
  "env \<Rightarrow> event list \<Rightarrow> Runner option \<Rightarrow> JobStatus \<Rightarrow> (exn + unit) \<times> event list" where
  "stop_job_runner env tr runner new_status =
     (case runner of
        None \<Rightarrow> (Inr (), tr)
      | Some r \<Rightarrow>
          if is_unfinished (job_status (job r)) \<and> job_status (job r) \<noteq> new_status then
            if is_finished new_status then stop_runner env tr r
            else update_runner env tr (r\<lparr>job := (job r)\<lparr>job_status := new_status\<rparr>\<rparr>)
          else (Inr (), tr))"

text \<open>
  The job's side: \<^verbatim>\<open>job.status = new_status\<close> raises \<^verbatim>\<open>AttributeError\<close> when there is
  no job.
\<close>

definition stop_job_record ::
  "env \<Rightarrow> event list \<Rightarrow> JobHead option \<Rightarrow> Job option \<Rightarrow> JobStatus
     \<Rightarrow> (exn + unit) \<times> event list" where
  "stop_job_record env tr job_head j new_status =
     (if (case job_head of None \<Rightarrow> False
          | Some h \<Rightarrow> is_unfinished (jh_status h) \<and> jh_status h \<noteq> new_status)
         \<or> (case j of None \<Rightarrow> False
             | Some jb \<Rightarrow> is_unfinished (job_status jb) \<and> job_status jb \<noteq> new_status)
      then (case j of
              None \<Rightarrow> (Inl AttributeError, tr)
            | Some jb \<Rightarrow> update_job env tr (jb\<lparr>job_status := new_status\<rparr>))
      else (Inr (), tr))"

text \<open>
  The runner and the request status that \<^verbatim>\<open>stop_job\<close> loads: without a job there is
  no runner and the status is \<^verbatim>\<open>TERMINATED\<close>.
\<close>

definition load_runner :: "env \<Rightarrow> event list \<Rightarrow> Job option \<Rightarrow> exn + Runner option" where
  "load_runner env tr j =
     (case j of None \<Rightarrow> Inr None | Some jb \<Rightarrow> get_runner env tr (job_runner_id jb))"

definition load_request_status ::
  "env \<Rightarrow> event list \<Rightarrow> Job option \<Rightarrow> Runner option \<Rightarrow> exn + RequestStatus" where
  "load_request_status env tr j runner =
     (case j of
        None \<Rightarrow> Inr R_TERMINATED
      | Some jb \<Rightarrow> bindE (get_request_head env tr jb runner) (\<lambda>h. Inr (rh_status h)))"

definition stop_job ::
  "env \<Rightarrow> event list \<Rightarrow> string \<Rightarrow> string \<Rightarrow> bool \<Rightarrow> (exn + unit) \<times> event list" where
  "stop_job env tr repo_address jid abort =
     (case env_list_job_head env tr repo_address jid of
        Inl e \<Rightarrow> (Inl e, tr)
      | Inr job_head \<Rightarrow>
     (case env_get_job env tr repo_address jid of
        Inl e \<Rightarrow> (Inl e, tr)
      | Inr j \<Rightarrow>
     (case load_runner env tr j of
        Inl e \<Rightarrow> (Inl e, tr)
      | Inr runner \<Rightarrow>
     (case load_request_status env tr j runner of
        Inl e \<Rightarrow> (Inl e, tr)
      | Inr request_status \<Rightarrow>
          if anything_unfinished job_head j runner request_status then
            (case choose_new_status abort job_head j runner request_status of
               None \<Rightarrow> (Inr (), tr)
             | Some new_status \<Rightarrow>
                 (case stop_job_runner env tr runner new_status of
                    (Inl e, tr1) \<Rightarrow> (Inl e, tr1)
                  | (Inr u, tr1) \<Rightarrow> stop_job_record env tr1 job_head j new_status))
          else (Inr (), tr)))))"

subsection \<open>Example inputs\<close>

definition example_job :: Job where
  "example_job =
     \<lparr>job_id = ''job-1'', job_repo_address = ''github.com/acme/app'',
      job_status = SUBMITTED, job_requirements = None, job_runner_id = Some ''r1'',
      job_request_id = None, job_local_repo_user_name = None,
      job_local_repo_user_email = None\<rparr>"

text \<open>A job document that keeps the id and the status of the job.\<close>

definition example_job_serialize :: "Job \<Rightarrow> yaml" where
  "example_job_serialize j =
     YDict [(''job_id'', YStr (job_id j)), (''finished'', YBool (is_finished (job_status j)))]"

definition example_job_unserialize :: "yaml \<Rightarrow> exn + Job" where
  "example_job_unserialize y =
     bindE (bindE (subscript y ''job_id'') as_str) (\<lambda>i.
     bindE (subscript y ''finished'') (\<lambda>f.
     Inr (example_job\<lparr>job_id := i,
                      job_status := (if is_True f then STOPPED else SUBMITTED)\<rparr>)))"


text \<open>
  An environment in which every call succeeds, the stores are empty and the provider
  knows no instance type, no spot request and no instance.
\<close>

definition quiet_env :: env where
  "quiet_env =
     \<lparr>env_uuid4 = (\<lambda>tr. ''r1''),
      env_update_job = (\<lambda>tr j. None),
      env_list_job_head = (\<lambda>tr repo jid. Inr None),
      env_get_job = (\<lambda>tr repo jid. Inr None),
      env_job_serialize = example_job_serialize,
      env_job_unserialize = example_job_unserialize,
      env_put_object = (\<lambda>tr key body metadata. None),
      env_get_object = (\<lambda>tr key. Inl (ClientError (Some ''NoSuchKey'') None)),
      env_delete_object = (\<lambda>tr key. None),
      env_create_log_group = (\<lambda>tr. None),
      env_describe_instance_types =
        (\<lambda>tr token. Inr \<lparr>pg_InstanceTypes = [], pg_NextToken = None\<rparr>),
      env_run_instance = (\<lambda>tr rid it user_name user_email repo. Inr ''i-0001''),
      env_describe_spot_instance_requests = (\<lambda>tr rid. Inr []),
      env_describe_instances = (\<lambda>tr rid. Inr []),
      env_describe_spot_instances = (\<lambda>tr rid. Inr []),
      env_cancel_spot_instance_requests = (\<lambda>tr rid. None),
      env_terminate_instances = (\<lambda>tr rid. None)\<rparr>"

text \<open>
  A provider that lists three instance types on two pages, the largest first, and
  requirements of four CPUs.
\<close>

definition catalogue_env :: env where
  "catalogue_env = quiet_env\<lparr>env_describe_instance_types :=
     (\<lambda>tr token.
        if token = None then
          Inr \<lparr>pg_InstanceTypes =
                 [\<lparr>ti_InstanceType = ''p3.2xlarge'', ti_DefaultVCpus = 8, ti_SizeInMiB = 62464,
                   ti_Gpus = Some [\<lparr>gd_Name = ''V100'', gd_Count = 1, gd_SizeInMiB = 16384\<rparr>],
                   ti_SupportedUsageClasses = [''on-demand'', ''spot'']\<rparr>],
               pg_NextToken = Some ''page-2''\<rparr>
        else
          Inr \<lparr>pg_InstanceTypes =
                 [\<lparr>ti_InstanceType = ''m5.xlarge'', ti_DefaultVCpus = 4, ti_SizeInMiB = 16384,
                   ti_Gpus = None, ti_SupportedUsageClasses = [''on-demand'', ''spot'']\<rparr>,
                  \<lparr>ti_InstanceType = ''c5.large'', ti_DefaultVCpus = 2, ti_SizeInMiB = 4096,
                   ti_Gpus = None, ti_SupportedUsageClasses = [''on-demand'', ''spot'']\<rparr>],
               pg_NextToken = None\<rparr>)\<rparr>"

definition four_cpus :: Requirements where
  "four_cpus = \<lparr>req_cpus = Some 4, req_memory_mib = None, req_gpus = None,
                req_interruptible = None, req_local = None\<rparr>"

definition m5_xlarge :: InstanceType where
  "m5_xlarge =
     \<lparr>instance_name = ''m5.xlarge'',
      it_resources = \<lparr>cpus = 4, memory_mib = 16384, gpus = Some [],
                      interruptible = Some True, local = Some False\<rparr>\<rparr>"

text \<open>
  The provider's transient error, a launch that always fails with it, and a launch that
  fails with it until two launches and two sleeps have happened.
\<close>

definition invalid_parameter_value :: exn where
  "invalid_parameter_value =
     ClientError (Some ''InvalidParameterValue'') (Some ''Invalid IAM Instance Profile name'')"

definition always_invalid_env :: env where
  "always_invalid_env =
     quiet_env\<lparr>env_run_instance :=
       (\<lambda>tr rid it user_name user_email repo. Inl invalid_parameter_value)\<rparr>"

definition flaky_env :: env where
  "flaky_env =
     quiet_env\<lparr>env_run_instance :=
       (\<lambda>tr rid it user_name user_email repo.
          if length tr < 4 then Inl invalid_parameter_value else Inr ''i-0001'')\<rparr>"

text \<open>The integers among the arguments of a plain exception.\<close>

fun exn_int_args :: "exn \<Rightarrow> int list" where
  "exn_int_args (Exception args) =
     concat (map (\<lambda>a. case a of AInt n \<Rightarrow> [n] | _ \<Rightarrow> []) args)"
| "exn_int_args _ = []"

text \<open>
  An interruptible job with a request id, and a provider that reports its spot request
  as fulfilled.
\<close>

definition spot_job :: Job where
  "spot_job =
     example_job\<lparr>job_requirements :=
                   Some \<lparr>req_cpus = None, req_memory_mib = None, req_gpus = None,
                         req_interruptible = Some True, req_local = None\<rparr>,
                 job_request_id := Some ''sir-0001''\<rparr>"

definition fulfilled_env :: env where
  "fulfilled_env =
     quiet_env\<lparr>env_describe_spot_instance_requests :=
       (\<lambda>tr rid. Inr [\<lparr>st_Code = ''fulfilled'',
                        st_Message = Some ''Your spot request is fulfilled.''\<rparr>])\<rparr>"

text \<open>
  A submitted job that asks for four CPUs, and a store that refuses to write once four
  events have happened: the runner is created and launched, and writing the request id
  into its document fails.
\<close>

definition slow_down :: exn where
  "slow_down = ClientError (Some ''SlowDown'') (Some ''Please reduce your request rate.'')"

definition submitted_job :: Job where
  "submitted_job = example_job\<lparr>job_requirements := Some four_cpus, job_runner_id := None\<rparr>"

definition failing_store_env :: env where
  "failing_store_env =
     catalogue_env\<lparr>env_put_object :=
       (\<lambda>tr key body metadata. if length tr < 4 then None else Some slow_down)\<rparr>"

definition launched_runner :: Runner where
  "launched_runner =
     \<lparr>runner_id = ''r1'', request_id = Some ''i-0001'',
      resources = (it_resources m5_xlarge)\<lparr>interruptible := None\<rparr>,
      job = submitted_job\<lparr>job_runner_id := Some ''r1''\<rparr>\<rparr>"

text \<open>
  A job store that remembers the status last written: the job and its head have the
  status of the last update of the job, \<^verbatim>\<open>SUBMITTED\<close> before the first.
\<close>

definition stored_status :: "event list \<Rightarrow> JobStatus" where
  "stored_status tr =
     foldl (\<lambda>s ev. case ev of UpdateJob j \<Rightarrow> job_status j | _ \<Rightarrow> s) SUBMITTED tr"

definition job_store_env :: env where
  "job_store_env =
     quiet_env\<lparr>env_list_job_head :=
                 (\<lambda>tr repo jid. Inr (Some \<lparr>jh_job_id = jid, jh_status = stored_status tr\<rparr>)),
               env_get_job :=
                 (\<lambda>tr repo jid. Inr (Some (example_job\<lparr>job_status := stored_status tr\<rparr>)))\<rparr>"




text \<open>A job head that is running, and no job record.\<close>

definition orphan_head_env :: env where
  "orphan_head_env =
     quiet_env\<lparr>env_list_job_head :=
                 (\<lambda>tr repo jid. Inr (Some \<lparr>jh_job_id = jid, jh_status = RUNNING\<rparr>))\<rparr>"














text \<open>
  Requirements of one GPU with 16000 MiB on an interruptible instance, and the type of
  \<open>catalogue_env\<close> that meets them.
\<close>

definition one_gpu_spot :: Requirements where
  "one_gpu_spot =
     \<lparr>req_cpus = None, req_memory_mib = None,
      req_gpus = Some \<lparr>gr_count = Some 1, gr_name = None, gr_memory_mib = Some 16000\<rparr>,
      req_interruptible = Some True, req_local = None\<rparr>"

definition p3_2xlarge :: InstanceType where
  "p3_2xlarge =
     \<lparr>instance_name = ''p3.2xlarge'',
      it_resources = \<lparr>cpus = 8, memory_mib = 62464,
                      gpus = Some [\<lparr>gpu_name = ''V100'', gpu_memory_mib = 16384\<rparr>],
                      interruptible = Some True, local = Some False\<rparr>\<rparr>"

section \<open>Properties\<close>

subsection \<open>The runner document round trip\<close>












subsection \<open>The matcher\<close>

text \<open>
  Inside the GPU block the interruptible flag is enforced: a match under a GPU
  requirement with the flag requested needs resources that can be interrupted.
\<close>

lemma matches_gpus_interruptible:
  "matches_gpus res r g \<Longrightarrow> truthy_bool (req_interruptible r)
     \<Longrightarrow> truthy_bool (interruptible res)"
  by (simp add: matches_gpus_def Let_def split: if_splits)

text \<open>
  Claim C1. The claim asks that requirements with the interruptible flag set never match
  resources that cannot be interrupted, with or without a GPU requirement. The code
  tests the flag only inside the block of the GPU requirement: without a GPU
  requirement, requirements that ask for an interruptible instance match resources
  whose interruptible flag is false.
\<close>

theorem matches_interruptible_without_gpus:
  "matches \<lparr>cpus = 2, memory_mib = 4096, gpus = Some [], interruptible = Some False,
            local = Some False\<rparr>
     (Some \<lparr>req_cpus = None, req_memory_mib = None, req_gpus = None,
            req_interruptible = Some True, req_local = None\<rparr>) = True"
  by (simp add: matches_def)



subsection \<open>The catalogue and the choice of an instance type\<close>

text \<open>The comparator is the lexicographic order on GPU memory, CPUs and memory.\<close>

lemma compare_le_0_iff:
  "compare a b \<le> 0 \<longleftrightarrow>
     gpu_total_memory_mib a < gpu_total_memory_mib b
     \<or> gpu_total_memory_mib a = gpu_total_memory_mib b
       \<and> (cpus (it_resources a) < cpus (it_resources b)
          \<or> cpus (it_resources a) = cpus (it_resources b)
            \<and> memory_mib (it_resources a) \<le> memory_mib (it_resources b))"
  by (auto simp: compare_def)

lemma compare_less_0_iff:
  "compare a b < 0 \<longleftrightarrow>
     gpu_total_memory_mib a < gpu_total_memory_mib b
     \<or> gpu_total_memory_mib a = gpu_total_memory_mib b
       \<and> (cpus (it_resources a) < cpus (it_resources b)
          \<or> cpus (it_resources a) = cpus (it_resources b)
            \<and> memory_mib (it_resources a) < memory_mib (it_resources b))"
  by (auto simp: compare_def)

lemma compare_total: "\<not> compare y x < 0 \<Longrightarrow> compare x y \<le> 0"
  unfolding compare_le_0_iff compare_less_0_iff by linarith

lemma compare_trans: "compare a b \<le> 0 \<Longrightarrow> compare b c \<le> 0 \<Longrightarrow> compare a c \<le> 0"
  unfolding compare_le_0_iff by linarith

lemma set_insert_cmp: "set (insert_cmp x ys) = insert x (set ys)"
  by (induction ys) auto

lemma length_insert_cmp: "length (insert_cmp x ys) = Suc (length ys)"
  by (induction ys) auto

lemma sorted_insert_cmp:
  "sorted_wrt (\<lambda>a b. compare a b \<le> 0) ys
     \<Longrightarrow> sorted_wrt (\<lambda>a b. compare a b \<le> 0) (insert_cmp x ys)"
proof (induction ys)
  case Nil
  then show ?case by simp
next
  case (Cons y ys)
  show ?case
  proof (cases "compare y x < 0")
    case True
    with Cons show ?thesis by (auto simp: set_insert_cmp)
  next
    case False
    then have xy: "compare x y \<le> 0" by (rule compare_total)
    have "\<forall>z\<in>set ys. compare x z \<le> 0"
      using Cons.prems xy compare_trans by auto
    with False xy Cons.prems show ?thesis by simp
  qed
qed

text \<open>The sorted catalogue is ascending and has the entries of the unsorted one.\<close>

lemma sorted_sorted_cmp: "sorted_wrt (\<lambda>a b. compare a b \<le> 0) (sorted_cmp xs)"
  unfolding sorted_cmp_def by (induction xs) (simp_all add: sorted_insert_cmp)

lemma set_sorted_cmp: "set (sorted_cmp xs) = set xs"
  unfolding sorted_cmp_def by (induction xs) (simp_all add: set_insert_cmp)

lemma length_sorted_cmp: "length (sorted_cmp xs) = length xs"
  unfolding sorted_cmp_def by (induction xs) (simp_all add: length_insert_cmp)

text \<open>The sorted catalogue ascends by total GPU memory, then CPUs, then memory.\<close>

lemma ascending_sorted_cmp:
  "sorted_wrt
               (\<lambda>a b.
                  (case gpus (it_resources a) of None \<Rightarrow> 0
                   | Some gs \<Rightarrow> sum_list (map gpu_memory_mib gs))
                    < (case gpus (it_resources b) of None \<Rightarrow> 0
                       | Some gs \<Rightarrow> sum_list (map gpu_memory_mib gs))
                  \<or> (case gpus (it_resources a) of None \<Rightarrow> 0
                      | Some gs \<Rightarrow> sum_list (map gpu_memory_mib gs))
                      = (case gpus (it_resources b) of None \<Rightarrow> 0
                         | Some gs \<Rightarrow> sum_list (map gpu_memory_mib gs))
                    \<and> (cpus (it_resources a) < cpus (it_resources b)
                       \<or> cpus (it_resources a) = cpus (it_resources b)
                         \<and> memory_mib (it_resources a) \<le> memory_mib (it_resources b)))
               (sorted_cmp xs)"
proof -
  have "sorted_wrt (\<lambda>a b. compare a b \<le> 0) (sorted_cmp xs)"
    by (rule sorted_sorted_cmp)
  then show ?thesis
    by (rule sorted_wrt_mono_rel [rotated])
       (auto simp: compare_le_0_iff gpu_total_memory_mib_def gpus_or_empty_def
          split: option.splits)
qed

text \<open>
  Claim C6. When \<open>get_instance_type\<close> returns an instance type, the catalogue was
  read to its end and ascends by total GPU memory, then CPUs, then memory; the returned
  type is a copy of the first entry of the catalogue whose own resources match the
  requirements (no earlier entry matches), with the name, CPUs, memory and GPUs of that
  entry, the interruptible flag the requirements ask for (none without requirements),
  not the entry's, and the local flag false.
\<close>

theorem get_instance_type_first_match:
  assumes "get_instance_type env tr requirements = Some (Inr (Some it))"
  shows "\<exists>catalogue i.
           get_instance_types env tr = Some (Inr catalogue)
           \<and> sorted_wrt
               (\<lambda>a b.
                  (case gpus (it_resources a) of None \<Rightarrow> 0
                   | Some gs \<Rightarrow> sum_list (map gpu_memory_mib gs))
                    < (case gpus (it_resources b) of None \<Rightarrow> 0
                       | Some gs \<Rightarrow> sum_list (map gpu_memory_mib gs))
                  \<or> (case gpus (it_resources a) of None \<Rightarrow> 0
                      | Some gs \<Rightarrow> sum_list (map gpu_memory_mib gs))
                      = (case gpus (it_resources b) of None \<Rightarrow> 0
                         | Some gs \<Rightarrow> sum_list (map gpu_memory_mib gs))
                    \<and> (cpus (it_resources a) < cpus (it_resources b)
                       \<or> cpus (it_resources a) = cpus (it_resources b)
                         \<and> memory_mib (it_resources a) \<le> memory_mib (it_resources b)))
               catalogue
           \<and> i < length catalogue
           \<and> matches (it_resources (catalogue ! i)) requirements
           \<and> (\<forall>k<i. \<not> matches (it_resources (catalogue ! k)) requirements)
           \<and> instance_name it = instance_name (catalogue ! i)
           \<and> cpus (it_resources it) = cpus (it_resources (catalogue ! i))
           \<and> memory_mib (it_resources it) = memory_mib (it_resources (catalogue ! i))
           \<and> gpus (it_resources it) = gpus (it_resources (catalogue ! i))
           \<and> interruptible (it_resources it)
               = (case requirements of None \<Rightarrow> None | Some r \<Rightarrow> req_interruptible r)
           \<and> local (it_resources it) = Some False"
proof -
  from assms obtain listed x where
    cat: "get_instance_types env tr = Some (Inr (sorted_cmp listed))"
    and fnd: "find (\<lambda>t. matches (it_resources t) requirements) (sorted_cmp listed) = Some x"
    and it: "it = \<lparr>instance_name = instance_name x,
                   it_resources =
                     \<lparr>cpus = cpus (it_resources x), memory_mib = memory_mib (it_resources x),
                      gpus = gpus (it_resources x),
                      interruptible = requested_interruptible requirements,
                      local = Some False\<rparr>\<rparr>"
    by (auto simp: get_instance_type_def get_instance_types_def
        split: option.splits sum.splits)
  from fnd obtain i where
    i: "i < length (sorted_cmp listed)"
       "matches (it_resources (sorted_cmp listed ! i)) requirements"
       "x = sorted_cmp listed ! i"
       "\<forall>k<i. \<not> matches (it_resources (sorted_cmp listed ! k)) requirements"
    unfolding find_Some_iff by blast
  have flag: "requested_interruptible requirements
                = (case requirements of None \<Rightarrow> None | Some r \<Rightarrow> req_interruptible r)"
    by (simp add: requested_interruptible_def)
  from cat i it flag ascending_sorted_cmp [of listed] show ?thesis
    by (intro exI [of _ "sorted_cmp listed"] exI [of _ i]) simp
qed

text \<open>
  The provider of \<open>catalogue_env\<close> lists the largest type first; the catalogue is
  sorted. One GPU on an interruptible instance is first met by its third entry, and the
  copy has the flag true as requested. Four CPUs are first met by its second entry; the
  entry can be interrupted, the requirements do not ask for it, and the copy has no
  flag.
\<close>

lemma catalogue_env_types:
  "get_instance_types catalogue_env [] = Some (Inr
     [\<lparr>instance_name = ''c5.large'',
       it_resources = \<lparr>cpus = 2, memory_mib = 4096, gpus = Some [],
                       interruptible = Some True, local = Some False\<rparr>\<rparr>,
      m5_xlarge,
      \<lparr>instance_name = ''p3.2xlarge'',
       it_resources = \<lparr>cpus = 8, memory_mib = 62464,
                       gpus = Some [\<lparr>gpu_name = ''V100'', gpu_memory_mib = 16384\<rparr>],
                       interruptible = Some True, local = Some False\<rparr>\<rparr>])"
  by (simp add: get_instance_types_def drain_instance_types.simps catalogue_env_def
      quiet_env_def instance_type_of_def gpus_of_device_def sorted_cmp_def compare_def
      gpu_total_memory_mib_def gpus_or_empty_def m5_xlarge_def)

lemma catalogue_env_choice:
  "get_instance_type catalogue_env [] (Some four_cpus)
     = Some (Inr (Some (m5_xlarge\<lparr>it_resources :=
         (it_resources m5_xlarge)\<lparr>interruptible := None\<rparr>\<rparr>)))"
  by (simp add: get_instance_type_def catalogue_env_types matches_def four_cpus_def
      requested_interruptible_def m5_xlarge_def)

lemma catalogue_env_gpu_choice:
  "get_instance_type catalogue_env [] (Some one_gpu_spot) = Some (Inr (Some p3_2xlarge))"
  by (simp add: get_instance_type_def catalogue_env_types matches_def matches_gpus_def
      one_gpu_spot_def requested_interruptible_def m5_xlarge_def p3_2xlarge_def
      gpus_or_empty_def gpus_with_memory_def)

theorem get_instance_type_first_match_witness:
  "get_instance_type catalogue_env [] (Some one_gpu_spot) = Some (Inr (Some p3_2xlarge))
   \<and> interruptible (it_resources p3_2xlarge) = Some True
   \<and> (\<exists>catalogue i.
           get_instance_types catalogue_env [] = Some (Inr catalogue)
           \<and> sorted_wrt
               (\<lambda>a b.
                  (case gpus (it_resources a) of None \<Rightarrow> 0
                   | Some gs \<Rightarrow> sum_list (map gpu_memory_mib gs))
                    < (case gpus (it_resources b) of None \<Rightarrow> 0
                       | Some gs \<Rightarrow> sum_list (map gpu_memory_mib gs))
                  \<or> (case gpus (it_resources a) of None \<Rightarrow> 0
                      | Some gs \<Rightarrow> sum_list (map gpu_memory_mib gs))
                      = (case gpus (it_resources b) of None \<Rightarrow> 0
                         | Some gs \<Rightarrow> sum_list (map gpu_memory_mib gs))
                    \<and> (cpus (it_resources a) < cpus (it_resources b)
                       \<or> cpus (it_resources a) = cpus (it_resources b)
                         \<and> memory_mib (it_resources a) \<le> memory_mib (it_resources b)))
               catalogue
           \<and> i < length catalogue
           \<and> matches (it_resources (catalogue ! i)) (Some one_gpu_spot)
           \<and> (\<forall>k<i. \<not> matches (it_resources (catalogue ! k)) (Some one_gpu_spot))
           \<and> instance_name p3_2xlarge = instance_name (catalogue ! i)
           \<and> cpus (it_resources p3_2xlarge) = cpus (it_resources (catalogue ! i))
           \<and> memory_mib (it_resources p3_2xlarge) = memory_mib (it_resources (catalogue ! i))
           \<and> gpus (it_resources p3_2xlarge) = gpus (it_resources (catalogue ! i))
           \<and> interruptible (it_resources p3_2xlarge)
               = (case (Some one_gpu_spot) of None \<Rightarrow> None | Some r \<Rightarrow> req_interruptible r)
           \<and> local (it_resources p3_2xlarge) = Some False)
   \<and> get_instance_type catalogue_env [] (Some four_cpus)
       = Some (Inr (Some (m5_xlarge\<lparr>it_resources := (it_resources m5_xlarge)\<lparr>interruptible := None\<rparr>\<rparr>)))
   \<and> interruptible (it_resources (m5_xlarge\<lparr>it_resources := (it_resources m5_xlarge)\<lparr>interruptible := None\<rparr>\<rparr>)) = None
   \<and> interruptible (it_resources m5_xlarge) = Some True
   \<and> (\<exists>catalogue i.
           get_instance_types catalogue_env [] = Some (Inr catalogue)
           \<and> sorted_wrt
               (\<lambda>a b.
                  (case gpus (it_resources a) of None \<Rightarrow> 0
                   | Some gs \<Rightarrow> sum_list (map gpu_memory_mib gs))
                    < (case gpus (it_resources b) of None \<Rightarrow> 0
                       | Some gs \<Rightarrow> sum_list (map gpu_memory_mib gs))
                  \<or> (case gpus (it_resources a) of None \<Rightarrow> 0
                      | Some gs \<Rightarrow> sum_list (map gpu_memory_mib gs))
                      = (case gpus (it_resources b) of None \<Rightarrow> 0
                         | Some gs \<Rightarrow> sum_list (map gpu_memory_mib gs))
                    \<and> (cpus (it_resources a) < cpus (it_resources b)
                       \<or> cpus (it_resources a) = cpus (it_resources b)
                         \<and> memory_mib (it_resources a) \<le> memory_mib (it_resources b)))
               catalogue
           \<and> i < length catalogue
           \<and> matches (it_resources (catalogue ! i)) (Some four_cpus)
           \<and> (\<forall>k<i. \<not> matches (it_resources (catalogue ! k)) (Some four_cpus))
           \<and> instance_name (m5_xlarge\<lparr>it_resources := (it_resources m5_xlarge)\<lparr>interruptible := None\<rparr>\<rparr>) = instance_name (catalogue ! i)
           \<and> cpus (it_resources (m5_xlarge\<lparr>it_resources := (it_resources m5_xlarge)\<lparr>interruptible := None\<rparr>\<rparr>)) = cpus (it_resources (catalogue ! i))
           \<and> memory_mib (it_resources (m5_xlarge\<lparr>it_resources := (it_resources m5_xlarge)\<lparr>interruptible := None\<rparr>\<rparr>)) = memory_mib (it_resources (catalogue ! i))
           \<and> gpus (it_resources (m5_xlarge\<lparr>it_resources := (it_resources m5_xlarge)\<lparr>interruptible := None\<rparr>\<rparr>)) = gpus (it_resources (catalogue ! i))
           \<and> interruptible (it_resources (m5_xlarge\<lparr>it_resources := (it_resources m5_xlarge)\<lparr>interruptible := None\<rparr>\<rparr>))
               = (case (Some four_cpus) of None \<Rightarrow> None | Some r \<Rightarrow> req_interruptible r)
           \<and> local (it_resources (m5_xlarge\<lparr>it_resources := (it_resources m5_xlarge)\<lparr>interruptible := None\<rparr>\<rparr>)) = Some False)"
proof -
  have a: "interruptible (it_resources p3_2xlarge) = Some True"
    by (simp add: p3_2xlarge_def)
  have b: "interruptible (it_resources (m5_xlarge\<lparr>it_resources := (it_resources m5_xlarge)\<lparr>interruptible := None\<rparr>\<rparr>)) = None"
    "interruptible (it_resources m5_xlarge) = Some True"
    by (simp_all add: m5_xlarge_def)
  from catalogue_env_gpu_choice a
    get_instance_type_first_match [OF catalogue_env_gpu_choice]
    catalogue_env_choice b
    get_instance_type_first_match [OF catalogue_env_choice]
  show ?thesis by (intro conjI)
qed

subsection \<open>Launching with retries\<close>

text \<open>One step of \<open>run_instance_retry\<close>, by the outcome of the launch.\<close>

lemma has_error_code_is_Exception: "has_error_code e code \<Longrightarrow> is_Exception e"
  by (cases e) simp_all

lemma retry_success:
  "env_run_instance env tr rid it un ue repo = Inr request
   \<Longrightarrow> run_instance_retry env tr rid it un ue repo attempts
       = (Inr request, tr @ [RunInstance rid it un ue repo])"
  by (simp add: run_instance_retry.simps [of env tr] run_instance_def)

lemma retry_again:
  "env_run_instance env tr rid it un ue repo = Inl e
   \<Longrightarrow> has_error_code e ''InvalidParameterValue'' \<Longrightarrow> 0 < attempts
   \<Longrightarrow> run_instance_retry env tr rid it un ue repo attempts
       = run_instance_retry env (tr @ [RunInstance rid it un ue repo, Sleep 3])
           rid it un ue repo (attempts - 1)"
  by (subst run_instance_retry.simps)
     (simp add: run_instance_def sleep_def CREATE_INSTANCE_RETRY_RATE_SECS_def
        has_error_code_is_Exception)

lemma retry_exhausted:
  "env_run_instance env tr rid it un ue repo = Inl e
   \<Longrightarrow> has_error_code e ''InvalidParameterValue'' \<Longrightarrow> attempts \<le> 0
   \<Longrightarrow> run_instance_retry env tr rid it un ue repo attempts
       = (Inl (Exception [AStr ''Failed to retry'', AExn e]),
          tr @ [RunInstance rid it un ue repo])"
  by (simp add: run_instance_retry.simps [of env tr] run_instance_def
      has_error_code_is_Exception)

lemma retry_other:
  "env_run_instance env tr rid it un ue repo = Inl e
   \<Longrightarrow> \<not> has_error_code e ''InvalidParameterValue''
   \<Longrightarrow> run_instance_retry env tr rid it un ue repo attempts
       = (Inl e, tr @ [RunInstance rid it un ue repo])"
  by (simp add: run_instance_retry.simps [of env tr] run_instance_def)

text \<open>
  Claim C3, as amended. When the launch fails with the error code
  \<^verbatim>\<open>InvalidParameterValue\<close> twice and then succeeds, \<open>run_instance_retry\<close> returns
  the request id after exactly three launches, with a sleep of three seconds before the
  second and the third. When every launch fails with that code, it raises after exactly
  four launches the exception \<^verbatim>\<open>Exception("Failed to retry", e)\<close>, where \<open>e\<close> is the
  error of the fourth launch. An error without that code is raised again after the one
  launch, whatever the number of attempts left.
\<close>

theorem run_instance_retry_attempts:
  "(\<forall>e1 e2 request.
      env_run_instance env tr rid it un ue repo = Inl e1
      \<and> has_error_code e1 ''InvalidParameterValue''
      \<and> env_run_instance env (tr @ [RunInstance rid it un ue repo, Sleep 3]) rid it un ue repo
          = Inl e2
      \<and> has_error_code e2 ''InvalidParameterValue''
      \<and> env_run_instance env
            (tr @ [RunInstance rid it un ue repo, Sleep 3,
                   RunInstance rid it un ue repo, Sleep 3]) rid it un ue repo
          = Inr request
      \<longrightarrow> run_instance_retry env tr rid it un ue repo 3
            = (Inr request,
               tr @ [RunInstance rid it un ue repo, Sleep 3,
                     RunInstance rid it un ue repo, Sleep 3,
                     RunInstance rid it un ue repo]))
   \<and> ((\<forall>tr'. \<exists>e. env_run_instance env tr' rid it un ue repo = Inl e
                \<and> has_error_code e ''InvalidParameterValue'')
      \<longrightarrow> (\<exists>e. env_run_instance env
                   (tr @ [RunInstance rid it un ue repo, Sleep 3,
                          RunInstance rid it un ue repo, Sleep 3,
                          RunInstance rid it un ue repo, Sleep 3]) rid it un ue repo = Inl e
               \<and> run_instance_retry env tr rid it un ue repo 3
                  = (Inl (Exception [AStr ''Failed to retry'', AExn e]),
                     tr @ [RunInstance rid it un ue repo, Sleep 3,
                           RunInstance rid it un ue repo, Sleep 3,
                           RunInstance rid it un ue repo, Sleep 3,
                           RunInstance rid it un ue repo])))
   \<and> (\<forall>e. env_run_instance env tr rid it un ue repo = Inl e
          \<and> \<not> has_error_code e ''InvalidParameterValue''
        \<longrightarrow> run_instance_retry env tr rid it un ue repo attempts
              = (Inl e, tr @ [RunInstance rid it un ue repo]))"
proof -
  let ?L = "RunInstance rid it un ue repo"
  let ?run = "\<lambda>t. env_run_instance env t rid it un ue repo"
  let ?retry = "\<lambda>t n. run_instance_retry env t rid it un ue repo n"
  have twice: "?retry tr 3 = (Inr request, tr @ [?L, Sleep 3, ?L, Sleep 3, ?L])"
    if "?run tr = Inl e1" "has_error_code e1 ''InvalidParameterValue''"
       "?run (tr @ [?L, Sleep 3]) = Inl e2" "has_error_code e2 ''InvalidParameterValue''"
       "?run (tr @ [?L, Sleep 3, ?L, Sleep 3]) = Inr request"
    for e1 e2 request
  proof -
    have "?retry tr 3 = ?retry (tr @ [?L, Sleep 3]) 2"
      using retry_again [OF that(1,2), of 3] by simp
    also have "\<dots> = ?retry (tr @ [?L, Sleep 3, ?L, Sleep 3]) 1"
      using retry_again [OF that(3,4), of 2] by simp
    also have "\<dots> = (Inr request, tr @ [?L, Sleep 3, ?L, Sleep 3, ?L])"
      using retry_success [OF that(5), of 1] by simp
    finally show ?thesis .
  qed
  have always: "\<exists>e. ?run (tr @ [?L, Sleep 3, ?L, Sleep 3, ?L, Sleep 3]) = Inl e
      \<and> ?retry tr 3 = (Inl (Exception [AStr ''Failed to retry'', AExn e]),
                        tr @ [?L, Sleep 3, ?L, Sleep 3, ?L, Sleep 3, ?L])"
    if all: "\<forall>tr'. \<exists>e. ?run tr' = Inl e \<and> has_error_code e ''InvalidParameterValue''"
  proof -
    from all obtain e1 where e1: "?run tr = Inl e1" "has_error_code e1 ''InvalidParameterValue''"
      by blast
    from all obtain e2 where e2: "?run (tr @ [?L, Sleep 3]) = Inl e2"
      "has_error_code e2 ''InvalidParameterValue''"
      by blast
    from all obtain e3 where e3: "?run (tr @ [?L, Sleep 3, ?L, Sleep 3]) = Inl e3"
      "has_error_code e3 ''InvalidParameterValue''"
      by blast
    from all obtain e4 where e4: "?run (tr @ [?L, Sleep 3, ?L, Sleep 3, ?L, Sleep 3]) = Inl e4"
      "has_error_code e4 ''InvalidParameterValue''"
      by blast
    have "?retry tr 3 = ?retry (tr @ [?L, Sleep 3]) 2"
      using retry_again [OF e1, of 3] by simp
    also have "\<dots> = ?retry (tr @ [?L, Sleep 3, ?L, Sleep 3]) 1"
      using retry_again [OF e2, of 2] by simp
    also have "\<dots> = ?retry (tr @ [?L, Sleep 3, ?L, Sleep 3, ?L, Sleep 3]) 0"
      using retry_again [OF e3, of 1] by simp
    also have "\<dots> = (Inl (Exception [AStr ''Failed to retry'', AExn e4]),
                      tr @ [?L, Sleep 3, ?L, Sleep 3, ?L, Sleep 3, ?L])"
      using retry_exhausted [OF e4, of 0] by simp
    finally show ?thesis using e4(1) by blast
  qed
  from twice always retry_other [of env tr rid it un ue repo _ attempts]
  show ?thesis by blast
qed

theorem run_instance_retry_attempts_witness:
  "run_instance_retry flaky_env [] ''r1'' m5_xlarge None None ''github.com/acme/app'' 3
     = (Inr ''i-0001'',
        [RunInstance ''r1'' m5_xlarge None None ''github.com/acme/app'', Sleep 3,
         RunInstance ''r1'' m5_xlarge None None ''github.com/acme/app'', Sleep 3,
         RunInstance ''r1'' m5_xlarge None None ''github.com/acme/app''])"
proof -
  have h: "env_run_instance flaky_env [] ''r1'' m5_xlarge None None ''github.com/acme/app''
             = Inl invalid_parameter_value
      \<and> has_error_code invalid_parameter_value ''InvalidParameterValue''
      \<and> env_run_instance flaky_env
            ([] @ [RunInstance ''r1'' m5_xlarge None None ''github.com/acme/app'', Sleep 3])
            ''r1'' m5_xlarge None None ''github.com/acme/app''
          = Inl invalid_parameter_value
      \<and> has_error_code invalid_parameter_value ''InvalidParameterValue''
      \<and> env_run_instance flaky_env
            ([] @ [RunInstance ''r1'' m5_xlarge None None ''github.com/acme/app'', Sleep 3,
                   RunInstance ''r1'' m5_xlarge None None ''github.com/acme/app'', Sleep 3])
            ''r1'' m5_xlarge None None ''github.com/acme/app''
          = Inr ''i-0001''"
    by (simp add: flaky_env_def quiet_env_def invalid_parameter_value_def)
  from run_instance_retry_attempts
         [of flaky_env "[]" "''r1''" m5_xlarge None None "''github.com/acme/app''" 3] h
  show ?thesis by (simp only: append_Nil) blast
qed

text \<open>
  Claim C3 as stated says that the wrapped failure carries the retry count. The
  exception raised after the fourth failed launch has two arguments, the text
  \<^verbatim>\<open>Failed to retry\<close> and the last error; no number is among them.
\<close>

theorem run_instance_retry_count_counterexample:
  "fst (run_instance_retry always_invalid_env [] ''r1'' m5_xlarge None None
          ''github.com/acme/app'' 3)
     = Inl (Exception [AStr ''Failed to retry'', AExn invalid_parameter_value])
   \<and> exn_int_args (Exception [AStr ''Failed to retry'', AExn invalid_parameter_value]) = []"
  by (simp add: run_instance_retry.simps run_instance_def sleep_def always_invalid_env_def
      quiet_env_def invalid_parameter_value_def CREATE_INSTANCE_RETRY_RATE_SECS_def)

subsection \<open>The status of a spot request\<close>

lemma spot_request_status_unknown:
  "code \<notin> set (spot_running_codes @ spot_pending_codes @ spot_no_capacity_codes
                 @ spot_terminated_codes)
   \<Longrightarrow> spot_request_status code
       = Inl (Exception [AStr (''Unsupported EC2 spot instance request status code: '' @ code)])"
  by (simp add: spot_request_status_def)

lemma spot_request_status_named:
  "spot_request_status ''fulfilled'' = Inr R_RUNNING"
  "spot_request_status ''price-too-low'' = Inr R_NO_CAPACITY"
  "spot_request_status ''instance-terminated-by-user'' = Inr R_TERMINATED"
  by (simp_all add: spot_request_status_def spot_running_codes_def spot_pending_codes_def
      spot_no_capacity_codes_def spot_terminated_codes_def)

lemma not_found_handler_plain:
  "not_found_handler code jid (Exception args) = Inl (Exception args)"
  by (simp add: not_found_handler_def)

lemma get_request_head_spot:
  assumes "job_interruptible j" and "resolve_request_id env tr j runner = Inr (Some rid)"
    and "rid \<noteq> []"
  shows "get_request_head env tr j runner = spot_request_head env tr j rid"
  using assms by (simp add: get_request_head_def)

text \<open>
  Claim C4. For an interruptible job whose request id resolves to a non-empty id,
  \<open>get_request_head\<close> answers by the status code of the first spot request the
  provider lists: \<^verbatim>\<open>fulfilled\<close> gives \<^verbatim>\<open>RUNNING\<close>, \<^verbatim>\<open>price-too-low\<close> gives
  \<^verbatim>\<open>NO_CAPACITY\<close>, \<^verbatim>\<open>instance-terminated-by-user\<close> gives \<^verbatim>\<open>TERMINATED\<close>, each with
  the provider's message; a code in none of the four lists raises an exception that
  names the code. An empty list of spot requests gives \<^verbatim>\<open>TERMINATED\<close> without a
  message, and the provider's not-found error gives \<^verbatim>\<open>TERMINATED\<close> with the message
  of the error.
\<close>

theorem get_request_head_spot_codes:
  assumes "job_interruptible j" and "resolve_request_id env tr j runner = Inr (Some rid)"
    and "rid \<noteq> []"
  shows "(\<forall>status others.
            env_describe_spot_instance_requests env tr rid = Inr (status # others) \<longrightarrow>
              (st_Code status = ''fulfilled'' \<longrightarrow>
                 get_request_head env tr j runner
                   = Inr \<lparr>rh_job_id = job_id j, rh_status = R_RUNNING,
                          rh_message = st_Message status\<rparr>)
            \<and> (st_Code status = ''price-too-low'' \<longrightarrow>
                 get_request_head env tr j runner
                   = Inr \<lparr>rh_job_id = job_id j, rh_status = R_NO_CAPACITY,
                          rh_message = st_Message status\<rparr>)
            \<and> (st_Code status = ''instance-terminated-by-user'' \<longrightarrow>
                 get_request_head env tr j runner
                   = Inr \<lparr>rh_job_id = job_id j, rh_status = R_TERMINATED,
                          rh_message = st_Message status\<rparr>)
            \<and> (st_Code status \<notin> set (spot_running_codes @ spot_pending_codes
                                        @ spot_no_capacity_codes @ spot_terminated_codes) \<longrightarrow>
                 get_request_head env tr j runner
                   = Inl (Exception
                       [AStr (''Unsupported EC2 spot instance request status code: ''
                              @ st_Code status)])))
         \<and> (env_describe_spot_instance_requests env tr rid = Inr [] \<longrightarrow>
              get_request_head env tr j runner
                = Inr \<lparr>rh_job_id = job_id j, rh_status = R_TERMINATED, rh_message = None\<rparr>)
         \<and> (\<forall>e. env_describe_spot_instance_requests env tr rid = Inl e
                 \<and> has_error_code e ''InvalidSpotInstanceRequestID.NotFound'' \<longrightarrow>
              get_request_head env tr j runner
                = Inr \<lparr>rh_job_id = job_id j, rh_status = R_TERMINATED,
                       rh_message = error_message e\<rparr>)"
proof -
  note head = get_request_head_spot [OF assms]
  have codes: "(st_Code status = ''fulfilled'' \<longrightarrow>
                 spot_request_head env tr j rid
                   = Inr \<lparr>rh_job_id = job_id j, rh_status = R_RUNNING,
                          rh_message = st_Message status\<rparr>)
            \<and> (st_Code status = ''price-too-low'' \<longrightarrow>
                 spot_request_head env tr j rid
                   = Inr \<lparr>rh_job_id = job_id j, rh_status = R_NO_CAPACITY,
                          rh_message = st_Message status\<rparr>)
            \<and> (st_Code status = ''instance-terminated-by-user'' \<longrightarrow>
                 spot_request_head env tr j rid
                   = Inr \<lparr>rh_job_id = job_id j, rh_status = R_TERMINATED,
                          rh_message = st_Message status\<rparr>)
            \<and> (st_Code status \<notin> set (spot_running_codes @ spot_pending_codes
                                        @ spot_no_capacity_codes @ spot_terminated_codes) \<longrightarrow>
                 spot_request_head env tr j rid
                   = Inl (Exception
                       [AStr (''Unsupported EC2 spot instance request status code: ''
                              @ st_Code status)]))"
    if "env_describe_spot_instance_requests env tr rid = Inr (status # others)"
    for status others
    using that
    by (simp add: spot_request_head_def spot_request_status_named
        spot_request_status_unknown not_found_handler_plain)
  have empty: "spot_request_head env tr j rid
                = Inr \<lparr>rh_job_id = job_id j, rh_status = R_TERMINATED, rh_message = None\<rparr>"
    if "env_describe_spot_instance_requests env tr rid = Inr []"
    using that by (simp add: spot_request_head_def)
  have missing: "spot_request_head env tr j rid
                = Inr \<lparr>rh_job_id = job_id j, rh_status = R_TERMINATED,
                       rh_message = error_message e\<rparr>"
    if "env_describe_spot_instance_requests env tr rid = Inl e"
       "has_error_code e ''InvalidSpotInstanceRequestID.NotFound''"
    for e
    using that
    by (simp add: spot_request_head_def not_found_handler_def has_error_code_is_Exception)
  from codes empty missing show ?thesis
    unfolding head by blast
qed

theorem get_request_head_spot_codes_witness:
  "get_request_head fulfilled_env [] spot_job None
     = Inr \<lparr>rh_job_id = ''job-1'', rh_status = R_RUNNING,
            rh_message = Some ''Your spot request is fulfilled.''\<rparr>"
proof -
  have h: "job_interruptible spot_job"
    "resolve_request_id fulfilled_env [] spot_job None = Inr (Some ''sir-0001'')"
    "''sir-0001'' \<noteq> []"
    by (simp_all add: job_interruptible_def requested_interruptible_def spot_job_def
        resolve_request_id_def)
  have d: "env_describe_spot_instance_requests fulfilled_env [] ''sir-0001''
             = Inr [\<lparr>st_Code = ''fulfilled'',
                     st_Message = Some ''Your spot request is fulfilled.''\<rparr>]"
    by (simp add: fulfilled_env_def quiet_env_def)
  have "job_id spot_job = ''job-1''"
    by (simp add: spot_job_def example_job_def)
  with get_request_head_spot_codes [OF h] d show ?thesis
    by (metis SpotStatus.select_convs(1) SpotStatus.select_convs(2))
qed

subsection \<open>Running a job\<close>

text \<open>The \<^verbatim>\<open>except\<close> clause, entered with an exception it catches.\<close>

lemma run_job_failed_Exception:
  "is_Exception e \<Longrightarrow>
   run_job_failed env tr j runner e
     = ((case env_update_job env tr
               (j\<lparr>job_status := FAILED,
                  job_request_id := (case runner of None \<Rightarrow> None | Some r \<Rightarrow> request_id r)\<rparr>) of
           None \<Rightarrow> Inl e | Some e' \<Rightarrow> Inl e'),
        tr @ [UpdateJob (j\<lparr>job_status := FAILED,
                          job_request_id :=
                            (case runner of None \<Rightarrow> None | Some r \<Rightarrow> request_id r)\<rparr>)])"
  by (simp add: run_job_failed_def update_job_def perform_def Let_def split: option.split)

text \<open>
  Claim C7. For a submitted job whose first update (the one that stores the runner id)
  succeeds, every exception \<open>e\<close> of class \<^verbatim>\<open>Exception\<close> raised from the choice of the
  instance type onward is followed by one more call, the update of the job record with
  the status \<^verbatim>\<open>FAILED\<close> and a request id, and then \<open>e\<close> is raised again (or the
  exception of that update, if it raises one). The request id is none when the choice
  of the instance type raises, when the update that reports that no type matches
  raises, when the creation of the runner raises and when the launch raises; it is the
  id the launch returned when the write of the launched runner raises.
  (\<^verbatim>\<open>SystemExit\<close>, raised when no instance type matches, is not of class
  \<^verbatim>\<open>Exception\<close>; the job is marked failed before it is raised.)
\<close>

theorem run_job_marks_failed:
  assumes "job_status j = SUBMITTED"
    and "env_update_job env tr (j\<lparr>job_runner_id := Some (env_uuid4 env tr)\<rparr>) = None"
  shows
    "let rid = env_uuid4 env tr;
         j1 = j\<lparr>job_runner_id := Some rid\<rparr>;
         tr1 = tr @ [UpdateJob j1];
         new_runner = (\<lambda>it. \<lparr>runner_id = rid, request_id = None,
                               resources = it_resources it, job = j1\<rparr>);
         launch = (\<lambda>t it. run_instance_retry env t rid it (job_local_repo_user_name j)
                             (job_local_repo_user_email j) (job_repo_address j) 3);
         marked = (\<lambda>e t request.
                     Some ((case env_update_job env t
                                   (j1\<lparr>job_status := FAILED, job_request_id := request\<rparr>) of
                              None \<Rightarrow> Inl e | Some e' \<Rightarrow> Inl e'),
                           t @ [UpdateJob (j1\<lparr>job_status := FAILED,
                                              job_request_id := request\<rparr>)]))
     in (\<forall>e. is_Exception e
              \<and> get_instance_type env tr1 (job_requirements j) = Some (Inl e)
            \<longrightarrow> run_job env tr j = marked e tr1 None)
      \<and> (\<forall>e. is_Exception e
              \<and> get_instance_type env tr1 (job_requirements j) = Some (Inr None)
              \<and> env_update_job env tr1 (j1\<lparr>job_status := FAILED\<rparr>) = Some e
            \<longrightarrow> run_job env tr j
                  = marked e (tr1 @ [UpdateJob (j1\<lparr>job_status := FAILED\<rparr>)]) None)
      \<and> (\<forall>e it tr2. is_Exception e
              \<and> get_instance_type env tr1 (job_requirements j) = Some (Inr (Some it))
              \<and> create_runner env tr1 (new_runner it) = (Inl e, tr2)
            \<longrightarrow> run_job env tr j = marked e tr2 None)
      \<and> (\<forall>e it tr2 tr3. is_Exception e
              \<and> get_instance_type env tr1 (job_requirements j) = Some (Inr (Some it))
              \<and> create_runner env tr1 (new_runner it) = (Inr (), tr2)
              \<and> launch tr2 it = (Inl e, tr3)
            \<longrightarrow> run_job env tr j = marked e tr3 None)
      \<and> (\<forall>e it tr2 tr3 tr4 request. is_Exception e
              \<and> get_instance_type env tr1 (job_requirements j) = Some (Inr (Some it))
              \<and> create_runner env tr1 (new_runner it) = (Inr (), tr2)
              \<and> launch tr2 it = (Inr request, tr3)
              \<and> update_runner env tr3 ((new_runner it)\<lparr>request_id := Some request\<rparr>)
                  = (Inl e, tr4)
            \<longrightarrow> run_job env tr j = marked e tr4 (Some request))"
  using assms
  unfolding Let_def
  by (intro conjI allI impI)
     (simp_all add: run_job_def run_job_try_def run_job_failed_Exception update_job_def
        perform_def Let_def)

lemma failing_store_env_choice:
  "get_instance_type failing_store_env tr (Some four_cpus)
     = Some (Inr (Some (m5_xlarge\<lparr>it_resources :=
         (it_resources m5_xlarge)\<lparr>interruptible := None\<rparr>\<rparr>)))"
  by (simp add: get_instance_type_def get_instance_types_def drain_instance_types.simps
      failing_store_env_def catalogue_env_def
      quiet_env_def instance_type_of_def gpus_of_device_def sorted_cmp_def compare_def
      gpu_total_memory_mib_def gpus_or_empty_def m5_xlarge_def matches_def four_cpus_def
      requested_interruptible_def)

lemma failing_store_env_calls:
  "env_uuid4 failing_store_env tr = ''r1''"
  "env_update_job failing_store_env tr j = None"
  "env_put_object failing_store_env tr key body metadata
     = (if length tr < 4 then None else Some slow_down)"
  "env_create_log_group failing_store_env tr = None"
  "env_run_instance failing_store_env tr rid it un ue repo = Inr ''i-0001''"
  "env_job_serialize failing_store_env = example_job_serialize"
  by (simp_all add: failing_store_env_def catalogue_env_def quiet_env_def)

lemma failing_store_env_stages:
  "is_Exception slow_down"
  "get_instance_type failing_store_env
     [UpdateJob (submitted_job\<lparr>job_runner_id := Some ''r1''\<rparr>)]
     (job_requirements submitted_job)
     = Some (Inr (Some (m5_xlarge\<lparr>it_resources :=
         (it_resources m5_xlarge)\<lparr>interruptible := None\<rparr>\<rparr>)))"
  "create_runner failing_store_env
     [UpdateJob (submitted_job\<lparr>job_runner_id := Some ''r1''\<rparr>)]
     \<lparr>runner_id = ''r1'', request_id = None,
      resources = it_resources (m5_xlarge\<lparr>it_resources :=
         (it_resources m5_xlarge)\<lparr>interruptible := None\<rparr>\<rparr>),
      job = submitted_job\<lparr>job_runner_id := Some ''r1''\<rparr>\<rparr>
     = (Inr (),
        [UpdateJob (submitted_job\<lparr>job_runner_id := Some ''r1''\<rparr>),
         PutObject ''runners/r1.yaml''
           (serialize_runner example_job_serialize (launched_runner\<lparr>request_id := None\<rparr>)) [],
         CreateLogGroup])"
  "run_instance_retry failing_store_env
     [UpdateJob (submitted_job\<lparr>job_runner_id := Some ''r1''\<rparr>),
      PutObject ''runners/r1.yaml''
        (serialize_runner example_job_serialize (launched_runner\<lparr>request_id := None\<rparr>)) [],
      CreateLogGroup]
     ''r1'' (m5_xlarge\<lparr>it_resources := (it_resources m5_xlarge)\<lparr>interruptible := None\<rparr>\<rparr>)
     (job_local_repo_user_name submitted_job) (job_local_repo_user_email submitted_job)
     (job_repo_address submitted_job) 3
     = (Inr ''i-0001'',
        [UpdateJob (submitted_job\<lparr>job_runner_id := Some ''r1''\<rparr>),
         PutObject ''runners/r1.yaml''
           (serialize_runner example_job_serialize (launched_runner\<lparr>request_id := None\<rparr>)) [],
         CreateLogGroup,
         RunInstance ''r1''
           (m5_xlarge\<lparr>it_resources := (it_resources m5_xlarge)\<lparr>interruptible := None\<rparr>\<rparr>)
           None None ''github.com/acme/app''])"
  "update_runner failing_store_env
     [UpdateJob (submitted_job\<lparr>job_runner_id := Some ''r1''\<rparr>),
      PutObject ''runners/r1.yaml''
        (serialize_runner example_job_serialize (launched_runner\<lparr>request_id := None\<rparr>)) [],
      CreateLogGroup,
      RunInstance ''r1''
        (m5_xlarge\<lparr>it_resources := (it_resources m5_xlarge)\<lparr>interruptible := None\<rparr>\<rparr>)
        None None ''github.com/acme/app'']
     (\<lparr>runner_id = ''r1'', request_id = None,
       resources = it_resources (m5_xlarge\<lparr>it_resources :=
          (it_resources m5_xlarge)\<lparr>interruptible := None\<rparr>\<rparr>),
       job = submitted_job\<lparr>job_runner_id := Some ''r1''\<rparr>\<rparr>\<lparr>request_id := Some ''i-0001''\<rparr>)
     = (Inl slow_down,
        [UpdateJob (submitted_job\<lparr>job_runner_id := Some ''r1''\<rparr>),
         PutObject ''runners/r1.yaml''
           (serialize_runner example_job_serialize (launched_runner\<lparr>request_id := None\<rparr>)) [],
         CreateLogGroup,
         RunInstance ''r1''
           (m5_xlarge\<lparr>it_resources := (it_resources m5_xlarge)\<lparr>interruptible := None\<rparr>\<rparr>)
           None None ''github.com/acme/app'',
         PutObject ''runners/r1.yaml''
           (serialize_runner example_job_serialize launched_runner) []])"
  by (simp_all add: slow_down_def failing_store_env_choice failing_store_env_calls
      submitted_job_def example_job_def create_runner_def put_runner_def update_runner_def
      perform_def runner_key_def runner_metadata_def run_instance_retry.simps
      run_instance_def launched_runner_def m5_xlarge_def)

text \<open>
  With the store of \<open>failing_store_env\<close> the runner is created and launched, the
  write of its request id fails, the job is marked failed with the id of the launched
  instance, and the store's exception is raised again.
\<close>

theorem run_job_marks_failed_witness:
  "run_job failing_store_env [] submitted_job
     = Some (Inl slow_down,
             [UpdateJob (submitted_job\<lparr>job_runner_id := Some ''r1''\<rparr>),
              PutObject ''runners/r1.yaml''
                (serialize_runner example_job_serialize (launched_runner\<lparr>request_id := None\<rparr>)) [],
              CreateLogGroup,
              RunInstance ''r1''
                (m5_xlarge\<lparr>it_resources := (it_resources m5_xlarge)\<lparr>interruptible := None\<rparr>\<rparr>)
                None None ''github.com/acme/app'',
              PutObject ''runners/r1.yaml''
                (serialize_runner example_job_serialize launched_runner) [],
              UpdateJob (submitted_job\<lparr>job_runner_id := Some ''r1'', job_status := FAILED,
                                       job_request_id := Some ''i-0001''\<rparr>)])"
proof -
  have s: "job_status submitted_job = SUBMITTED"
    by (simp add: submitted_job_def example_job_def)
  have u: "env_update_job failing_store_env []
             (submitted_job\<lparr>job_runner_id := Some (env_uuid4 failing_store_env [])\<rparr>) = None"
    by (simp add: failing_store_env_calls)
  note stages = run_job_marks_failed [OF s u, unfolded Let_def]
  from stages [THEN conjunct2, THEN conjunct2, THEN conjunct2, THEN conjunct2, rule_format,
      where e = slow_down
        and it = "m5_xlarge\<lparr>it_resources := (it_resources m5_xlarge)\<lparr>interruptible := None\<rparr>\<rparr>"
        and ?tr2.0 = "[UpdateJob (submitted_job\<lparr>job_runner_id := Some ''r1''\<rparr>),
          PutObject ''runners/r1.yaml''
            (serialize_runner example_job_serialize (launched_runner\<lparr>request_id := None\<rparr>)) [],
          CreateLogGroup]"
        and ?tr3.0 = "[UpdateJob (submitted_job\<lparr>job_runner_id := Some ''r1''\<rparr>),
          PutObject ''runners/r1.yaml''
            (serialize_runner example_job_serialize (launched_runner\<lparr>request_id := None\<rparr>)) [],
          CreateLogGroup,
          RunInstance ''r1''
            (m5_xlarge\<lparr>it_resources := (it_resources m5_xlarge)\<lparr>interruptible := None\<rparr>\<rparr>)
            None None ''github.com/acme/app'']"
        and ?tr4.0 = "[UpdateJob (submitted_job\<lparr>job_runner_id := Some ''r1''\<rparr>),
          PutObject ''runners/r1.yaml''
            (serialize_runner example_job_serialize (launched_runner\<lparr>request_id := None\<rparr>)) [],
          CreateLogGroup,
          RunInstance ''r1''
            (m5_xlarge\<lparr>it_resources := (it_resources m5_xlarge)\<lparr>interruptible := None\<rparr>\<rparr>)
            None None ''github.com/acme/app'',
          PutObject ''runners/r1.yaml''
            (serialize_runner example_job_serialize launched_runner) []]"
        and request = "''i-0001''"]
    failing_store_env_stages
  show ?thesis
    by (simp add: failing_store_env_calls)
qed

subsection \<open>Stopping a job\<close>

text \<open>Nothing is done for a runner and for a job that are finished.\<close>

lemma stop_job_runner_finished:
  "(\<forall>r. runner = Some r \<longrightarrow> is_finished (job_status (job r)))
   \<Longrightarrow> stop_job_runner env tr runner new_status = (Inr (), tr)"
  by (cases runner) (simp_all add: stop_job_runner_def is_unfinished_def)

lemma stop_job_record_finished:
  "(\<forall>h. job_head = Some h \<longrightarrow> is_finished (jh_status h))
   \<Longrightarrow> (\<forall>jb. j = Some jb \<longrightarrow> is_finished (job_status jb))
   \<Longrightarrow> stop_job_record env tr job_head j new_status = (Inr (), tr)"
  by (cases job_head; cases j) (simp_all add: stop_job_record_def is_unfinished_def)

lemma anything_unfinished_finished:
  "(\<forall>h. job_head = Some h \<longrightarrow> is_finished (jh_status h))
   \<Longrightarrow> (\<forall>jb. j = Some jb \<longrightarrow> is_finished (job_status jb))
   \<Longrightarrow> (\<forall>r. runner = Some r \<longrightarrow> is_finished (job_status (job r)))
   \<Longrightarrow> \<not> anything_unfinished job_head j runner R_TERMINATED"
  by (cases job_head; cases j; cases runner)
     (simp_all add: anything_unfinished_def is_unfinished_def)

text \<open>
  When the job head, the job and the runner's job are finished or missing, no call that
  changes the world is made, whatever the provider says of the request.
\<close>
lemma stop_job_finished_no_events:
  assumes "env_list_job_head env tr repo jid = Inr job_head"
    and "env_get_job env tr repo jid = Inr j"
    and "load_runner env tr j = Inr runner"
    and "\<forall>h. job_head = Some h \<longrightarrow> is_finished (jh_status h)"
    and "\<forall>jb. j = Some jb \<longrightarrow> is_finished (job_status jb)"
    and "\<forall>r. runner = Some r \<longrightarrow> is_finished (job_status (job r))"
  shows "snd (stop_job env tr repo jid abort) = tr"
  using assms(1-3)
  by (simp add: stop_job_def stop_job_runner_finished [OF assms(6)]
      stop_job_record_finished [OF assms(4,5)] split: sum.split option.split)

text \<open>
  Claim C2. When the job head, the job record and the job inside the runner are
  finished (or missing) and the request status is \<^verbatim>\<open>TERMINATED\<close>, \<open>stop_job\<close>
  returns without any event: no update of the job, no write or deletion of the runner,
  no call to the provider that changes anything. Calling it again on the events it
  leaves gives the same.
\<close>

theorem stop_job_finished_noop:
  assumes "env_list_job_head env tr repo jid = Inr job_head"
    and "env_get_job env tr repo jid = Inr j"
    and "load_runner env tr j = Inr runner"
    and "load_request_status env tr j runner = Inr R_TERMINATED"
    and "\<forall>h. job_head = Some h \<longrightarrow> is_finished (jh_status h)"
    and "\<forall>jb. j = Some jb \<longrightarrow> is_finished (job_status jb)"
    and "\<forall>r. runner = Some r \<longrightarrow> is_finished (job_status (job r))"
  shows "stop_job env tr repo jid abort = (Inr (), tr)
         \<and> stop_job env (snd (stop_job env tr repo jid abort)) repo jid abort = (Inr (), tr)"
proof -
  have "stop_job env tr repo jid abort = (Inr (), tr)"
    using assms(1-4) anything_unfinished_finished [OF assms(5-7)]
    by (simp add: stop_job_def)
  then show ?thesis by simp
qed

lemma job_store_env_reads:
  "env_list_job_head job_store_env tr repo jid
     = Inr (Some \<lparr>jh_job_id = jid, jh_status = stored_status tr\<rparr>)"
  "env_get_job job_store_env tr repo jid
     = Inr (Some (example_job\<lparr>job_status := stored_status tr\<rparr>))"
  "load_runner job_store_env tr (Some (example_job\<lparr>job_status := s\<rparr>)) = Inr None"
  "load_request_status job_store_env tr (Some (example_job\<lparr>job_status := s\<rparr>)) None
     = Inr R_TERMINATED"
  by (simp_all add: job_store_env_def quiet_env_def load_runner_def load_request_status_def
      get_runner_def get_runner_handler_def get_request_head_def resolve_request_id_def
      example_job_def unspecified_request_head_def)

lemma job_store_env_first_call:
  "stop_job job_store_env [] ''github.com/acme/app'' ''job-1'' False
     = (Inr (), [UpdateJob (example_job\<lparr>job_status := STOPPED\<rparr>)])"
  by (simp add: stop_job_def job_store_env_reads stored_status_def anything_unfinished_def
      is_unfinished_def choose_new_status_def stop_job_runner_def stop_job_record_def
      update_job_def perform_def)
     (simp add: job_store_env_def quiet_env_def)

text \<open>
  With the job store of \<open>job_store_env\<close> the first call stops the submitted job;
  the second call finds it stopped and does nothing.
\<close>

theorem stop_job_finished_noop_witness:
  "stop_job job_store_env [] ''github.com/acme/app'' ''job-1'' False
     = (Inr (), [UpdateJob (example_job\<lparr>job_status := STOPPED\<rparr>)])
   \<and> stop_job job_store_env [UpdateJob (example_job\<lparr>job_status := STOPPED\<rparr>)]
        ''github.com/acme/app'' ''job-1'' False
     = (Inr (), [UpdateJob (example_job\<lparr>job_status := STOPPED\<rparr>)])"
proof -
  have s: "stored_status [UpdateJob (example_job\<lparr>job_status := STOPPED\<rparr>)] = STOPPED"
    by (simp add: stored_status_def)
  have f: "\<forall>h. Some \<lparr>jh_job_id = ''job-1'',
                       jh_status = stored_status [UpdateJob (example_job\<lparr>job_status := STOPPED\<rparr>)]\<rparr>
               = Some h \<longrightarrow> is_finished (jh_status h)"
    "\<forall>jb. Some (example_job\<lparr>job_status :=
                   stored_status [UpdateJob (example_job\<lparr>job_status := STOPPED\<rparr>)]\<rparr>) = Some jb
          \<longrightarrow> is_finished (job_status jb)"
    "\<forall>r. (None :: Runner option) = Some r \<longrightarrow> is_finished (job_status (job r))"
    by (auto simp: s)
  from job_store_env_first_call
    stop_job_finished_noop [OF job_store_env_reads f, THEN conjunct1]
  show ?thesis by (rule conjI)
qed




text \<open>
  Claim C10. When the job head is unfinished and there is no job record, \<open>stop_job\<close>
  raises \<^verbatim>\<open>AttributeError\<close> at the assignment of the new status, before any event.
  Without a job record it returns normally exactly when the head is finished or
  missing.
\<close>

theorem stop_job_without_record:
  assumes "env_list_job_head env tr repo jid = Inr job_head"
    and "env_get_job env tr repo jid = Inr None"
  shows "((\<exists>h. job_head = Some h \<and> is_unfinished (jh_status h))
            \<longrightarrow> stop_job env tr repo jid abort = (Inl AttributeError, tr))
         \<and> ((\<forall>h. job_head = Some h \<longrightarrow> is_finished (jh_status h))
            \<longrightarrow> stop_job env tr repo jid abort = (Inr (), tr))"
proof -
  have "stop_job env tr repo jid abort = (Inl AttributeError, tr)"
    if "job_head = Some h" "is_unfinished (jh_status h)" for h
  proof -
    have "jh_status h \<noteq> ABORTED" "jh_status h \<noteq> STOPPED"
      using that(2) by (auto simp: is_unfinished_def)
    with assms that show ?thesis
      by (simp add: stop_job_def load_runner_def load_request_status_def
          anything_unfinished_def choose_new_status_def stop_job_runner_def
          stop_job_record_def)
  qed
  moreover have "stop_job env tr repo jid abort = (Inr (), tr)"
    if "\<forall>h. job_head = Some h \<longrightarrow> is_finished (jh_status h)"
    using assms that
    by (cases job_head)
       (simp_all add: stop_job_def load_runner_def load_request_status_def
          anything_unfinished_def is_unfinished_def)
  ultimately show ?thesis by blast
qed




theorem stop_job_without_record_witness:
  "stop_job orphan_head_env [] ''github.com/acme/app'' ''job-1'' False
     = (Inl AttributeError, [])"
proof -
  have r: "env_list_job_head orphan_head_env [] ''github.com/acme/app'' ''job-1''
             = Inr (Some \<lparr>jh_job_id = ''job-1'', jh_status = RUNNING\<rparr>)"
    "env_get_job orphan_head_env [] ''github.com/acme/app'' ''job-1'' = Inr None"
    by (simp_all add: orphan_head_env_def quiet_env_def)
  have u: "\<exists>h. Some \<lparr>jh_job_id = ''job-1'', jh_status = RUNNING\<rparr> = Some h
               \<and> is_unfinished (jh_status h)"
    by (simp add: is_unfinished_def)
  from stop_job_without_record [OF r, THEN conjunct1] u
  show ?thesis by (rule mp)
qed

end
